theory Spec2Isabelle
  imports Main "HOL-Library.Word"
begin

unbundle bit_operations_syntax

section \<open>The filesystem store driver of glance.store\<close>

text \<open>
  A shallow embedding of \<^verbatim>\<open>glance/store/_drivers/filesystem.py\<close>: the location
  class \<^verbatim>\<open>StoreLocation\<close>, the reader \<^verbatim>\<open>ChunkedFile\<close> and the driver
  \<^verbatim>\<open>Store\<close>. Python's byte strings are \<^typ>\<open>string\<close>. Every \<^verbatim>\<open>raise\<close> is a value
  of type \<open>exn\<close>; a method that can raise returns \<open>exn + 'a\<close> (\<open>Inl\<close> the exception).
  The file system and the log are an explicit state, passed in and returned.
\<close>

subsection \<open>Exceptions\<close>

text \<open>
  The error numbers the driver and the operating system calls below mention, by name.
  An \<^verbatim>\<open>IOError\<close> or \<^verbatim>\<open>OSError\<close> carries its \<^verbatim>\<open>errno\<close> attribute, which is
  \<^verbatim>\<open>None\<close> for an exception built without one.
\<close>

datatype errno = ENOENT | EIO | EACCES | EEXIST | ENOTDIR | EISDIR | EFBIG | ENOSPC | EROFS | EDQUOT

datatype exn =
    IOError "errno option"
  | OSError "errno option"
  | ValueError
  | TypeError
  | AttributeError
  | AssertionError
  | OtherException string
  | BackendException string
  | BadStoreUri string
  | BadStoreConfiguration string string
  | NotFound string
  | Duplicate string
  | Forbidden string
  | StorageFull
  | StorageWriteDenied

subsection \<open>The log\<close>

datatype level = DEBUG | INFO | ERROR | EXCEPTION

datatype log_arg = Str string | Exn exn | Num nat

text \<open>A log record: the level, the message template and the values formatted into it.\<close>

type_synonym log_entry = "level \<times> string \<times> log_arg list"

subsection \<open>The file system\<close>

text \<open>
  A path names a regular file with its content, or a directory with the size that
  \<^verbatim>\<open>stat\<close> reports for it, or nothing.
\<close>

datatype node = File string | Dir nat

record world =
  nodes :: "string \<rightharpoonup> node"
  LOG :: "log_entry list"

definition log_msg :: "level \<Rightarrow> string \<Rightarrow> log_arg list \<Rightarrow> world \<Rightarrow> world" where
  "log_msg lvl msg args s = s\<lparr>LOG := LOG s @ [(lvl, msg, args)]\<rparr>"

text \<open>
  What the operating system decides during one call of the driver, beyond what the
  file system's content determines: the error (if any) with which opening a path fails,
  with which the \<open>i\<close>-th write to the file being written fails, with which unlinking a
  path fails, and with which \<^verbatim>\<open>os.makedirs\<close> fails. A failed \<^verbatim>\<open>os.makedirs\<close> also
  says whether the directory exists afterwards: it does when another process created
  it in the meantime.
\<close>

record faults =
  open_fault :: "string \<Rightarrow> errno option"
  write_fault :: "nat \<Rightarrow> errno option"
  unlink_fault :: "string \<Rightarrow> errno option"
  makedirs_fault :: "(errno \<times> bool) option"
  new_dir_size :: nat

definition no_faults :: faults where
  "no_faults = \<lparr>open_fault = (\<lambda>p. None), write_fault = (\<lambda>i. None),
     unlink_fault = (\<lambda>p. None), makedirs_fault = None, new_dir_size = 4096\<rparr>"

definition os_path_exists :: "world \<Rightarrow> string \<Rightarrow> bool" where
  "os_path_exists s p = (nodes s p \<noteq> None)"

definition os_path_getsize :: "world \<Rightarrow> string \<Rightarrow> exn + nat" where
  "os_path_getsize s p =
     (case nodes s p of
        None \<Rightarrow> Inl (OSError (Some ENOENT))
      | Some (File content) \<Rightarrow> Inr (length content)
      | Some (Dir n) \<Rightarrow> Inr n)"

text \<open>\<^verbatim>\<open>os.path.join(a, b)\<close> of \<^verbatim>\<open>posixpath\<close>.\<close>

definition os_path_join :: "string \<Rightarrow> string \<Rightarrow> string" where
  "os_path_join a b =
     (if b \<noteq> [] \<and> hd b = CHR ''/'' then b
      else if a = [] \<or> last a = CHR ''/'' then a @ b
      else a @ ''/'' @ b)"

text \<open>\<^verbatim>\<open>open(p, 'rb')\<close> and \<^verbatim>\<open>open(p, 'r')\<close>: the content the opened file will deliver.\<close>

definition open_read :: "faults \<Rightarrow> string \<Rightarrow> world \<Rightarrow> exn + string" where
  "open_read fl p s =
     (case nodes s p of
        None \<Rightarrow> Inl (IOError (Some ENOENT))
      | Some (Dir n) \<Rightarrow> Inl (IOError (Some EISDIR))
      | Some (File content) \<Rightarrow>
          (case open_fault fl p of
             Some en \<Rightarrow> Inl (IOError (Some en))
           | None \<Rightarrow> Inr content))"

text \<open>\<^verbatim>\<open>open(p, 'wb')\<close>: creates the file, or truncates it.\<close>

definition open_write :: "faults \<Rightarrow> string \<Rightarrow> world \<Rightarrow> (exn + unit) \<times> world" where
  "open_write fl p s =
     (case nodes s p of
        Some (Dir n) \<Rightarrow> (Inl (IOError (Some EISDIR)), s)
      | _ \<Rightarrow>
          (case open_fault fl p of
             Some en \<Rightarrow> (Inl (IOError (Some en)), s)
           | None \<Rightarrow> (Inr (), s\<lparr>nodes := (nodes s)(p \<mapsto> File [])\<rparr>)))"

text \<open>\<^verbatim>\<open>f.write(buf)\<close>, the \<open>i\<close>-th write to the file opened at \<open>p\<close>: appends.\<close>

definition file_write :: "faults \<Rightarrow> string \<Rightarrow> nat \<Rightarrow> string \<Rightarrow> world \<Rightarrow> (exn + unit) \<times> world" where
  "file_write fl p i buf s =
     (case write_fault fl i of
        Some en \<Rightarrow> (Inl (IOError (Some en)), s)
      | None \<Rightarrow>
          (case nodes s p of
             Some (File content) \<Rightarrow> (Inr (), s\<lparr>nodes := (nodes s)(p \<mapsto> File (content @ buf))\<rparr>)
           | _ \<Rightarrow> (Inr (), s)))"

definition os_unlink :: "faults \<Rightarrow> string \<Rightarrow> world \<Rightarrow> (exn + unit) \<times> world" where
  "os_unlink fl p s =
     (case nodes s p of
        None \<Rightarrow> (Inl (OSError (Some ENOENT)), s)
      | Some (Dir n) \<Rightarrow> (Inl (OSError (Some EISDIR)), s)
      | Some (File content) \<Rightarrow>
          (case unlink_fault fl p of
             Some en \<Rightarrow> (Inl (OSError (Some en)), s)
           | None \<Rightarrow> (Inr (), s\<lparr>nodes := (nodes s)(p := None)\<rparr>)))"

definition os_makedirs :: "faults \<Rightarrow> string \<Rightarrow> world \<Rightarrow> (exn + unit) \<times> world" where
  "os_makedirs fl p s =
     (if os_path_exists s p then (Inl (OSError (Some EEXIST)), s)
      else
        (case makedirs_fault fl of
           None \<Rightarrow> (Inr (), s\<lparr>nodes := (nodes s)(p \<mapsto> Dir (new_dir_size fl))\<rparr>)
         | Some (en, raced) \<Rightarrow>
             (Inl (OSError (Some en)),
              if raced then s\<lparr>nodes := (nodes s)(p \<mapsto> Dir (new_dir_size fl))\<rparr> else s)))"

subsection \<open>File objects and generators\<close>

text \<open>
  A file-like object open for reading: the bytes it has still to deliver, and the
  exception (if any) that its \<^verbatim>\<open>read\<close> raises once they are delivered, in place of
  the empty string of an end of file.
\<close>

datatype fileobj = FileObj string "exn option"

fun file_read :: "fileobj \<Rightarrow> nat \<Rightarrow> exn + (string \<times> fileobj)" where
  "file_read (FileObj d r) n =
     (if d = [] then (case r of None \<Rightarrow> Inr ([], FileObj [] r) | Some e \<Rightarrow> Inl e)
      else Inr (take n d, FileObj (drop n d) r))"

fun remaining :: "fileobj \<Rightarrow> string" where
  "remaining (FileObj d r) = d"

text \<open>What a Python generator does when it is run to its end.\<close>

datatype 'a generator = StopIteration | Raises exn | Yield 'a "'a generator"

fun yielded :: "'a generator \<Rightarrow> 'a list" where
  "yielded StopIteration = []"
| "yielded (Raises e) = []"
| "yielded (Yield x g) = x # yielded g"

fun raised :: "'a generator \<Rightarrow> exn option" where
  "raised StopIteration = None"
| "raised (Raises e) = Some e"
| "raised (Yield x g) = raised g"

text \<open>
  The reading loop of \<^verbatim>\<open>ChunkedFile.__iter__\<close>: read \<open>n\<close> bytes at a time and yield
  each chunk until a read returns the empty string.
\<close>

function read_chunks :: "fileobj \<Rightarrow> nat \<Rightarrow> string generator" where
  "read_chunks f n =
     (case file_read f n of
        Inl e \<Rightarrow> Raises e
      | Inr (chunk, f') \<Rightarrow>
          if chunk \<noteq> [] then Yield chunk (read_chunks f' n) else StopIteration)"
  by pat_completeness auto
termination
proof (relation "measure (\<lambda>(f, n). length (remaining f))")
  show "wf (measure (\<lambda>(f, n). length (remaining f)))"
    by simp
next
  fix f :: fileobj and n :: nat and b x y
  assume r: "file_read f n = Inr b" and b: "(x, y) = b" and ne: "x \<noteq> []"
  obtain d r' where f: "f = FileObj d r'"
    by (cases f)
  from r b ne f have "d \<noteq> []" and "n \<noteq> 0" and "y = FileObj (drop n d) r'"
    by (auto split: if_splits option.splits)
  then show "((y, n), (f, n)) \<in> measure (\<lambda>(f, n). length (remaining f))"
    using f by simp
qed

declare read_chunks.simps [simp del]

text \<open>
  Modelled from the spec: \<^verbatim>\<open>glance.store.common.utils.chunkreadable\<close> is not among the
  sources. The spec has \<^verbatim>\<open>add\<close> stream its input in fixed-size chunks, and the reader
  produce chunks of a fixed maximum size, in order, until the end of the stream.
\<close>

definition chunkreadable :: "fileobj \<Rightarrow> nat \<Rightarrow> string generator" where
  "chunkreadable iter chunk_size = read_chunks iter chunk_size"

subsection \<open>Library functions taken as parameters\<close>

text \<open>What \<^verbatim>\<open>urlparse.urlparse\<close> returns.\<close>

record ParseResult =
  url_scheme :: string
  url_netloc :: string
  url_path :: string
  url_params :: string
  url_query :: string
  url_fragment :: string

datatype json =
    JNull
  | JBool bool
  | JNumber int
  | JString string
  | JArray "json list"
  | JObject "(string \<times> json) list"

text \<open>
  The functions of the standard library and of the rest of \<^verbatim>\<open>glance.store\<close> that the
  driver calls and whose code is not in the driver's file: \<^verbatim>\<open>urlparse.urlparse\<close>, the digest
  of \<^verbatim>\<open>hashlib.md5\<close> (as a function of the whole message), \<^verbatim>\<open>jsonutils.load\<close> (as a
  function of the file's content) and \<^verbatim>\<open>glance.store.check_location_metadata\<close>.
  Every theorem below holds for all of them.
\<close>

record lib =
  urlparse :: "string \<Rightarrow> exn + ParseResult"
  md5_hexdigest :: "string \<Rightarrow> string"
  jsonutils_load :: "string \<Rightarrow> exn + json"
  check_location_metadata :: "json \<Rightarrow> exn + unit"

text \<open>
  A \<^verbatim>\<open>hashlib.md5\<close> object is the message fed to it so far: \<^verbatim>\<open>update\<close> appends, as the
  library documents (repeated calls are equivalent to one call with the concatenation).
\<close>

type_synonym md5 = string

definition hashlib_md5 :: md5 where
  "hashlib_md5 = []"

definition md5_update :: "md5 \<Rightarrow> string \<Rightarrow> md5" where
  "md5_update h buf = h @ buf"

definition hexdigest :: "lib \<Rightarrow> md5 \<Rightarrow> string" where
  "hexdigest l h = md5_hexdigest l h"

text \<open>\<^verbatim>\<open>str.strip()\<close>: drops the leading and the trailing whitespace of a byte string.\<close>

definition py_isspace :: "char \<Rightarrow> bool" where
  "py_isspace c = (c \<in> set [CHR 0x09, CHR 0x0A, CHR 0x0B, CHR 0x0C, CHR 0x0D, CHR 0x20])"

definition strip :: "string \<Rightarrow> string" where
  "strip s = rev (dropWhile py_isspace (rev (dropWhile py_isspace s)))"

subsection \<open>StoreLocation\<close>

record StoreLocation =
  scheme :: string
  path :: "string option"

text \<open>\<^verbatim>\<open>process_specs\<close>: called by the base class's constructor on the \<^verbatim>\<open>specs\<close> dict.\<close>

definition process_specs :: "(string \<rightharpoonup> string) \<Rightarrow> StoreLocation" where
  "process_specs specs =
     \<lparr>scheme = (case specs ''scheme'' of None \<Rightarrow> ''file'' | Some v \<Rightarrow> v),
      path = specs ''path''\<rparr>"

text \<open>\<^verbatim>\<open>"%s" % v\<close> for a value that is a string or \<^verbatim>\<open>None\<close>.\<close>

definition str_opt :: "string option \<Rightarrow> string" where
  "str_opt v = (case v of None \<Rightarrow> ''None'' | Some p \<Rightarrow> p)"

definition get_uri :: "StoreLocation \<Rightarrow> string" where
  "get_uri self = ''file://'' @ str_opt (path self)"

definition parse_uri :: "lib \<Rightarrow> StoreLocation \<Rightarrow> string \<Rightarrow> world \<Rightarrow> (exn + unit) \<times> StoreLocation \<times> world" where
  "parse_uri l self uri s =
     (case urlparse l uri of
        Inl e \<Rightarrow> (Inl e, self, s)
      | Inr pieces \<Rightarrow>
          if url_scheme pieces \<notin> set [''file'', ''filesystem''] then (Inl AssertionError, self, s)
          else
            (let self1 = self\<lparr>scheme := url_scheme pieces\<rparr>;
                 p = strip (url_netloc pieces @ url_path pieces)
             in if p = [] then
                  (Inl (BadStoreUri ''No path specified''), self1,
                   log_msg DEBUG ''No path specified in URI: %s'' [Str uri] s)
                else (Inr (), self1\<lparr>path := Some p\<rparr>, s)))"

record Location =
  store_location :: StoreLocation

subsection \<open>ChunkedFile\<close>

definition CHUNKSIZE :: nat where
  "CHUNKSIZE = 65536"

record ChunkedFile =
  filepath :: string
  fp :: "fileobj option"

definition ChunkedFile_init :: "faults \<Rightarrow> string \<Rightarrow> world \<Rightarrow> exn + ChunkedFile" where
  "ChunkedFile_init fl p s =
     (case open_read fl p s of
        Inl e \<Rightarrow> Inl e
      | Inr content \<Rightarrow> Inr \<lparr>filepath = p, fp = Some (FileObj content None)\<rparr>)"

definition close :: "ChunkedFile \<Rightarrow> ChunkedFile" where
  "close self = (case fp self of Some f \<Rightarrow> self\<lparr>fp := None\<rparr> | None \<Rightarrow> self)"

text \<open>
  \<^verbatim>\<open>__iter__\<close>, run to its end: the chunks it yields, how it ends, and the object
  afterwards (the \<^verbatim>\<open>finally\<close> clause has closed it).
\<close>

definition ChunkedFile_iter :: "ChunkedFile \<Rightarrow> string generator \<times> ChunkedFile" where
  "ChunkedFile_iter self =
     ((case fp self of
         Some f \<Rightarrow> read_chunks f CHUNKSIZE
       | None \<Rightarrow> StopIteration),
      close self)"

subsection \<open>Store\<close>

record config =
  filesystem_store_datadir :: "string option"
  filesystem_store_metadata_file :: "string option"

text \<open>
  The driver object: its configuration, and \<^verbatim>\<open>self.datadir\<close>, which is \<open>None\<close> until
  \<^verbatim>\<open>configure_add\<close> has set it to a path. The base class disables \<^verbatim>\<open>add\<close> on a store
  whose configuration failed; where the model is asked for \<^verbatim>\<open>add\<close> on a store without
  a data directory, it answers with the \<^verbatim>\<open>AttributeError\<close> of a missing attribute.
\<close>

record Store =
  conf :: config
  datadir :: "string option"

definition get_schemes :: "string list" where
  "get_schemes = [''file'', ''filesystem'']"

text \<open>
  The handler of \<^verbatim>\<open>except (IOError, OSError)\<close> in \<^verbatim>\<open>configure_add\<close>: if the path
  exists now, another process has created it, and the error is ignored.
\<close>

definition configure_add_except :: "string \<Rightarrow> Store \<Rightarrow> world \<Rightarrow> (exn + unit) \<times> Store \<times> world" where
  "configure_add_except d self s =
     (if os_path_exists s d then (Inr (), self, s)
      else
        (Inl (BadStoreConfiguration ''filesystem'' (''Unable to create datadir: '' @ d)), self,
         log_msg ERROR ''Unable to create datadir: %s'' [Str d] s))"

definition configure_add :: "faults \<Rightarrow> Store \<Rightarrow> world \<Rightarrow> (exn + unit) \<times> Store \<times> world" where
  "configure_add fl self s =
     (let self1 = self\<lparr>datadir := filesystem_store_datadir (conf self)\<rparr> in
      case datadir self1 of
        None \<Rightarrow>
          (let reason = ''Could not find filesystem_store_datadir in configuration options.''
           in (Inl (BadStoreConfiguration ''filesystem'' reason), self1, log_msg ERROR reason [] s))
      | Some d \<Rightarrow>
          if \<not> os_path_exists s d then
            (let s1 = log_msg INFO
                   ''Directory to write image files does not exist (%s). Creating.'' [Str d] s
             in case os_makedirs fl d s1 of
                  (Inr u, s2) \<Rightarrow> (Inr (), self1, s2)
                | (Inl e, s2) \<Rightarrow>
                    (case e of
                       IOError en \<Rightarrow> configure_add_except d self1 s2
                     | OSError en \<Rightarrow> configure_add_except d self1 s2
                     | _ \<Rightarrow> (Inl e, self1, s2)))
          else (Inr (), self1, s))"

definition resolve_location :: "world \<Rightarrow> Location \<Rightarrow> exn + (string \<times> nat)" where
  "resolve_location s location =
     (case path (store_location location) of
        None \<Rightarrow> Inl TypeError
      | Some fpath \<Rightarrow>
          if \<not> os_path_exists s fpath then Inl (NotFound fpath)
          else
            (case os_path_getsize s fpath of
               Inl e \<Rightarrow> Inl e
             | Inr filesize \<Rightarrow> Inr (fpath, filesize)))"

text \<open>The body of the \<^verbatim>\<open>try\<close> in \<^verbatim>\<open>_get_metadata\<close>.\<close>

definition get_metadata_try :: "lib \<Rightarrow> faults \<Rightarrow> string \<Rightarrow> world \<Rightarrow> exn + json" where
  "get_metadata_try l fl metadata_file s =
     (case open_read fl metadata_file s of
        Inl e \<Rightarrow> Inl e
      | Inr fptr \<Rightarrow>
          (case jsonutils_load l fptr of
             Inl e \<Rightarrow> Inl e
           | Inr metadata \<Rightarrow>
               (case check_location_metadata l metadata of
                  Inl e \<Rightarrow> Inl e
                | Inr u \<Rightarrow> Inr metadata)))"

text \<open>
  \<^verbatim>\<open>_get_metadata\<close>, with its three handlers in the order of the source:
  \<^verbatim>\<open>BackendException\<close>, \<^verbatim>\<open>IOError\<close>, and \<^verbatim>\<open>Exception\<close> for everything else.
\<close>

definition get_metadata :: "lib \<Rightarrow> faults \<Rightarrow> Store \<Rightarrow> world \<Rightarrow> (exn + json) \<times> world" where
  "get_metadata l fl self s =
     (case filesystem_store_metadata_file (conf self) of
        None \<Rightarrow> (Inr (JObject []), s)
      | Some metadata_file \<Rightarrow>
          (case get_metadata_try l fl metadata_file s of
             Inr metadata \<Rightarrow> (Inr metadata, s)
           | Inl e \<Rightarrow>
               (case e of
                  BackendException m \<Rightarrow>
                    (Inr (JObject []),
                     log_msg ERROR
                       ''The JSON in the metadata file %s could not be used: %s  An empty dictionary will be returned to the client.''
                       [Str metadata_file, Exn e] s)
                | IOError en \<Rightarrow>
                    (Inr (JObject []),
                     log_msg ERROR
                       ''The path for the metadata file %s could not be opened: %s  An empty dictionary will be returned to the client.''
                       [Str metadata_file, Exn e] s)
                | _ \<Rightarrow>
                    (Inr (JObject []),
                     log_msg EXCEPTION
                       ''An error occurred processing the storage systems meta data file: %s.  An empty dictionary will be returned to the client.''
                       [Exn e] s))))"

text \<open>
  \<^verbatim>\<open>get\<close>. Its parameters \<^verbatim>\<open>offset\<close>, \<^verbatim>\<open>chunk_size\<close> and \<^verbatim>\<open>context\<close> are not used by
  the source and are left out.
\<close>

definition get :: "faults \<Rightarrow> Store \<Rightarrow> Location \<Rightarrow> world \<Rightarrow> (exn + (ChunkedFile \<times> nat)) \<times> world" where
  "get fl self location s =
     (case resolve_location s location of
        Inl e \<Rightarrow> (Inl e, s)
      | Inr (fpath, filesize) \<Rightarrow>
          (let s1 = log_msg DEBUG ''Found image at %s. Returning in ChunkedFile.'' [Str fpath] s
           in case ChunkedFile_init fl fpath s1 of
                Inl e \<Rightarrow> (Inl e, s1)
              | Inr cf \<Rightarrow> (Inr (cf, filesize), s1)))"

definition get_size :: "Store \<Rightarrow> Location \<Rightarrow> world \<Rightarrow> (exn + nat) \<times> world" where
  "get_size self location s =
     (case resolve_location s location of
        Inl e \<Rightarrow> (Inl e, s)
      | Inr (fpath, filesize) \<Rightarrow>
          (Inr filesize, log_msg DEBUG ''Found image at %s.'' [Str fpath] s))"

definition delete :: "faults \<Rightarrow> Store \<Rightarrow> Location \<Rightarrow> world \<Rightarrow> (exn + unit) \<times> world" where
  "delete fl self location s =
     (case path (store_location location) of
        None \<Rightarrow> (Inl TypeError, s)
      | Some fn \<Rightarrow>
          if os_path_exists s fn then
            (let s1 = log_msg DEBUG ''Deleting image at %(fn)s'' [Str fn] s
             in case os_unlink fl fn s1 of
                  (Inr u, s2) \<Rightarrow> (Inr (), s2)
                | (Inl e, s2) \<Rightarrow>
                    (case e of
                       OSError en \<Rightarrow> (Inl (Forbidden (''You cannot delete file '' @ fn)), s2)
                     | _ \<Rightarrow> (Inl e, s2)))
          else (Inl (NotFound fn), s))"

definition delete_partial :: "faults \<Rightarrow> string \<Rightarrow> string \<Rightarrow> world \<Rightarrow> world" where
  "delete_partial fl fpath iid s =
     (case os_unlink fl fpath s of
        (Inr u, s1) \<Rightarrow> s1
      | (Inl e, s1) \<Rightarrow>
          log_msg ERROR ''Unable to remove partial image data for image %s: %s'' [Str iid, Exn e] s1)"

text \<open>The loop of \<^verbatim>\<open>add\<close> over the chunks, \<open>i\<close> counting the writes.\<close>

fun add_loop :: "faults \<Rightarrow> string \<Rightarrow> nat \<Rightarrow> string generator \<Rightarrow> nat \<Rightarrow> md5 \<Rightarrow> world
    \<Rightarrow> (exn + (nat \<times> md5)) \<times> world" where
  "add_loop fl fpath i StopIteration bytes_written checksum s = (Inr (bytes_written, checksum), s)"
| "add_loop fl fpath i (Raises e) bytes_written checksum s = (Inl e, s)"
| "add_loop fl fpath i (Yield buf g) bytes_written checksum s =
     (let bytes_written1 = bytes_written + length buf;
          checksum1 = md5_update checksum buf
      in case file_write fl fpath i buf s of
           (Inl e, s1) \<Rightarrow> (Inl e, s1)
         | (Inr u, s1) \<Rightarrow> add_loop fl fpath (Suc i) g bytes_written1 checksum1 s1)"

text \<open>The body of the \<^verbatim>\<open>try\<close> in \<^verbatim>\<open>add\<close>: open the file, then write the chunks.\<close>

definition add_try :: "faults \<Rightarrow> string \<Rightarrow> fileobj \<Rightarrow> world \<Rightarrow> (exn + (nat \<times> md5)) \<times> world" where
  "add_try fl fpath image_file s =
     (case open_write fl fpath s of
        (Inl e, s1) \<Rightarrow> (Inl e, s1)
      | (Inr u, s1) \<Rightarrow>
          add_loop fl fpath 0 (chunkreadable image_file CHUNKSIZE) 0 hashlib_md5 s1)"

text \<open>The dict \<^verbatim>\<open>errors\<close> of \<^verbatim>\<open>add\<close>, and \<^verbatim>\<open>errors.get(e.errno, e)\<close>.\<close>

definition errors :: "errno option \<rightharpoonup> exn" where
  "errors = [Some EFBIG \<mapsto> StorageFull, Some ENOSPC \<mapsto> StorageFull,
             Some EACCES \<mapsto> StorageWriteDenied]"

definition errors_get :: "errno option \<Rightarrow> exn \<Rightarrow> exn" where
  "errors_get k d = (case errors k of Some v \<Rightarrow> v | None \<Rightarrow> d)"

text \<open>
  \<^verbatim>\<open>add\<close>. The image identifier is the string \<^verbatim>\<open>str(image_id)\<close>; \<^verbatim>\<open>image_size\<close> is a
  parameter that the source does not use. The result is the tuple of the URI, the bytes
  written, the checksum and the metadata. The variable \<^verbatim>\<open>filepath\<close> of the source is
  \<open>fpath\<close> here and in the other methods, \<open>filepath\<close> being the field of \<^verbatim>\<open>ChunkedFile\<close>.
\<close>

definition add :: "lib \<Rightarrow> faults \<Rightarrow> Store \<Rightarrow> string \<Rightarrow> fileobj \<Rightarrow> nat \<Rightarrow> world
    \<Rightarrow> (exn + (string \<times> nat \<times> string \<times> json)) \<times> world" where
  "add l fl self image_id image_file image_size s =
     (case datadir self of
        None \<Rightarrow> (Inl AttributeError, s)
      | Some d \<Rightarrow>
          (let fpath = os_path_join d image_id in
           if os_path_exists s fpath then (Inl (Duplicate fpath), s)
           else
             (case add_try fl fpath image_file s of
                (Inl e, s1) \<Rightarrow>
                  (case e of
                     IOError en \<Rightarrow>
                       (let s2 = (if en \<noteq> Some EACCES then delete_partial fl fpath image_id s1
                                  else s1)
                        in (Inl (errors_get en e), s2))
                   | _ \<Rightarrow> (Inl e, delete_partial fl fpath image_id s1))
              | (Inr (bytes_written, checksum), s1) \<Rightarrow>
                  (let checksum_hex = hexdigest l checksum in
                   case get_metadata l fl self s1 of
                     (Inl e, s2) \<Rightarrow> (Inl e, s2)
                   | (Inr metadata, s2) \<Rightarrow>
                       (Inr (''file://'' @ fpath, bytes_written, checksum_hex, metadata),
                        log_msg DEBUG
                          ''Wrote %(bytes_written)d bytes to %(filepath)s with checksum %(checksum_hex)s''
                          [Num bytes_written, Str fpath, Str checksum_hex] s2)))))"

section \<open>A library for the examples\<close>

text \<open>
  The theorems below hold for every library. The examples that instantiate them need one:
  \<^verbatim>\<open>urlparse.urlparse\<close> and \<^verbatim>\<open>hashlib.md5\<close> as CPython 2.7 has them, the validation of
  \<^verbatim>\<open>glance.store.check_location_metadata\<close> (dicts, lists and strings are allowed), and
  a reader for the JSON documents of the examples.
\<close>

subsection \<open>urlparse\<close>

definition scheme_chars :: string where
  "scheme_chars = ''abcdefghijklmnopqrstuvwxyzABCDEFGHIJKLMNOPQRSTUVWXYZ0123456789+-.''"

definition py_lower :: "string \<Rightarrow> string" where
  "py_lower s =
     map (\<lambda>c. case map_of (zip ''ABCDEFGHIJKLMNOPQRSTUVWXYZ'' ''abcdefghijklmnopqrstuvwxyz'') c of
                 Some c' \<Rightarrow> c' | None \<Rightarrow> c) s"

definition py_find :: "char \<Rightarrow> string \<Rightarrow> nat option" where
  "py_find c s = (if c \<in> set s then Some (length (takeWhile (\<lambda>x. x \<noteq> c) s)) else None)"

definition split1 :: "char \<Rightarrow> string \<Rightarrow> string \<times> string" where
  "split1 c s =
     (if c \<in> set s then (takeWhile (\<lambda>x. x \<noteq> c) s, tl (dropWhile (\<lambda>x. x \<noteq> c) s)) else (s, []))"

definition splitnetloc :: "string \<Rightarrow> string \<times> string" where
  "splitnetloc url =
     (takeWhile (\<lambda>c. c \<notin> set ''/?#'') (drop 2 url), dropWhile (\<lambda>c. c \<notin> set ''/?#'') (drop 2 url))"

definition split_scheme :: "string \<Rightarrow> string \<times> string" where
  "split_scheme url =
     (case py_find CHR '':'' url of
        None \<Rightarrow> ([], url)
      | Some i \<Rightarrow>
          if i = 0 then ([], url)
          else if take i url = ''http'' then (''http'', drop (Suc i) url)
          else if list_all (\<lambda>c. c \<in> set scheme_chars) (take i url)
                  \<and> (drop (Suc i) url = [] \<or> list_ex (\<lambda>c. c \<notin> set ''0123456789'') (drop (Suc i) url))
          then (py_lower (take i url), drop (Suc i) url)
          else ([], url))"

definition uses_params :: "string list" where
  "uses_params = [''ftp'', ''hdl'', ''prospero'', ''http'', ''imap'', ''https'', ''shttp'', ''rtsp'',
     ''rtspu'', ''sip'', ''sips'', ''mms'', '''', ''sftp'', ''tel'']"

definition splitparams :: "string \<Rightarrow> string \<times> string" where
  "splitparams url =
     (if CHR ''/'' \<in> set url then
        (let k = length url - Suc (length (takeWhile (\<lambda>x. x \<noteq> CHR ''/'') (rev url)))
         in case py_find CHR '';'' (drop k url) of
              None \<Rightarrow> (url, [])
            | Some j \<Rightarrow> (take (k + j) url, drop (Suc (k + j)) url))
      else split1 CHR '';'' url)"

definition py_urlparse :: "string \<Rightarrow> exn + ParseResult" where
  "py_urlparse uri =
     (case split_scheme uri of (sch, url1) \<Rightarrow>
      case (if take 2 url1 = ''//'' then splitnetloc url1 else ([], url1)) of (nl, url2) \<Rightarrow>
        if (CHR ''['' \<in> set nl \<and> CHR '']'' \<notin> set nl) \<or> (CHR '']'' \<in> set nl \<and> CHR ''['' \<notin> set nl)
        then Inl ValueError
        else
          (case split1 CHR ''#'' url2 of (url3, frag) \<Rightarrow>
           case split1 CHR ''?'' url3 of (url4, q) \<Rightarrow>
           case (if sch \<in> set uses_params \<and> CHR '';'' \<in> set url4 then splitparams url4
                 else (url4, [])) of (url5, ps) \<Rightarrow>
             Inr \<lparr>url_scheme = sch, url_netloc = nl, url_path = url5, url_params = ps,
                  url_query = q, url_fragment = frag\<rparr>))"

subsection \<open>MD5\<close>

definition md5_K :: "32 word list" where
  "md5_K =
     [0xd76aa478, 0xe8c7b756, 0x242070db, 0xc1bdceee,
      0xf57c0faf, 0x4787c62a, 0xa8304613, 0xfd469501,
      0x698098d8, 0x8b44f7af, 0xffff5bb1, 0x895cd7be,
      0x6b901122, 0xfd987193, 0xa679438e, 0x49b40821,
      0xf61e2562, 0xc040b340, 0x265e5a51, 0xe9b6c7aa,
      0xd62f105d, 0x02441453, 0xd8a1e681, 0xe7d3fbc8,
      0x21e1cde6, 0xc33707d6, 0xf4d50d87, 0x455a14ed,
      0xa9e3e905, 0xfcefa3f8, 0x676f02d9, 0x8d2a4c8a,
      0xfffa3942, 0x8771f681, 0x6d9d6122, 0xfde5380c,
      0xa4beea44, 0x4bdecfa9, 0xf6bb4b60, 0xbebfbc70,
      0x289b7ec6, 0xeaa127fa, 0xd4ef3085, 0x04881d05,
      0xd9d4d039, 0xe6db99e5, 0x1fa27cf8, 0xc4ac5665,
      0xf4292244, 0x432aff97, 0xab9423a7, 0xfc93a039,
      0x655b59c3, 0x8f0ccc92, 0xffeff47d, 0x85845dd1,
      0x6fa87e4f, 0xfe2ce6e0, 0xa3014314, 0x4e0811a1,
      0xf7537e82, 0xbd3af235, 0x2ad7d2bb, 0xeb86d391]"

definition md5_shifts :: "nat list" where
  "md5_shifts =
     [7, 12, 17, 22, 7, 12, 17, 22, 7, 12, 17, 22, 7, 12, 17, 22,
      5, 9, 14, 20, 5, 9, 14, 20, 5, 9, 14, 20, 5, 9, 14, 20,
      4, 11, 16, 23, 4, 11, 16, 23, 4, 11, 16, 23, 4, 11, 16, 23,
      6, 10, 15, 21, 6, 10, 15, 21, 6, 10, 15, 21, 6, 10, 15, 21]"

fun le_bytes :: "nat \<Rightarrow> nat \<Rightarrow> nat list" where
  "le_bytes 0 n = []"
| "le_bytes (Suc k) n = (n mod 256) # le_bytes k (n div 256)"

definition md5_pad :: "string \<Rightarrow> nat list" where
  "md5_pad msg =
     map of_char msg @ [128] @ replicate ((55 + 64 - length msg mod 64) mod 64) 0
       @ le_bytes 8 (8 * length msg)"

fun le_words :: "nat list \<Rightarrow> 32 word list" where
  "le_words (a # b # c # d # bs) =
     (of_nat a + push_bit 8 (of_nat b) + push_bit 16 (of_nat c) + push_bit 24 (of_nat d)) # le_words bs"
| "le_words bs = []"

definition word_bytes :: "32 word \<Rightarrow> nat list" where
  "word_bytes w = map (\<lambda>i. unat (drop_bit (8 * i) w AND 255)) [0, 1, 2, 3]"

fun blocks :: "nat \<Rightarrow> 'a list \<Rightarrow> 'a list list" where
  "blocks n [] = []"
| "blocks n (x # xs) = (x # take n xs) # blocks n (drop n xs)"

definition md5_round :: "32 word list \<Rightarrow> 32 word \<times> 32 word \<times> 32 word \<times> 32 word \<Rightarrow> nat
    \<Rightarrow> 32 word \<times> 32 word \<times> 32 word \<times> 32 word" where
  "md5_round m st i =
     (case st of (a, b, c, d) \<Rightarrow>
        let (f, g) =
              (if i < 16 then ((b AND c) OR (NOT b AND d), i)
               else if i < 32 then ((d AND b) OR (NOT d AND c), (5 * i + 1) mod 16)
               else if i < 48 then (b XOR c XOR d, (3 * i + 5) mod 16)
               else (c XOR (b OR NOT d), (7 * i) mod 16));
            f1 = f + a + md5_K ! i + m ! g
        in (d, b + word_rotl (md5_shifts ! i) f1, b, c))"

definition md5_block :: "32 word \<times> 32 word \<times> 32 word \<times> 32 word \<Rightarrow> 32 word list
    \<Rightarrow> 32 word \<times> 32 word \<times> 32 word \<times> 32 word" where
  "md5_block st m =
     (case st of (a0, b0, c0, d0) \<Rightarrow>
      case foldl (md5_round m) st [0..<64] of (a, b, c, d) \<Rightarrow>
        (a0 + a, b0 + b, c0 + c, d0 + d))"

definition hex_byte :: "nat \<Rightarrow> string" where
  "hex_byte n = [''0123456789abcdef'' ! (n div 16), ''0123456789abcdef'' ! (n mod 16)]"

definition py_md5_hexdigest :: "string \<Rightarrow> string" where
  "py_md5_hexdigest msg =
     (case foldl md5_block (0x67452301, 0xefcdab89, 0x98badcfe, 0x10325476)
             (map le_words (blocks 63 (md5_pad msg))) of
        (a, b, c, d) \<Rightarrow>
          concat (map hex_byte (concat (map word_bytes [a, b, c, d]))))"

subsection \<open>JSON documents\<close>

text \<open>
  The reader knows the three well-formed documents of the examples and takes every other
  text for malformed, which \<^verbatim>\<open>json.load\<close> reports as a \<^verbatim>\<open>ValueError\<close>.
\<close>

definition sample_json_load :: "string \<Rightarrow> exn + json" where
  "sample_json_load doc =
     (if doc = ''{}'' then Inr (JObject [])
      else if doc = ''{\"id\": \"abc\"}'' then Inr (JObject [(''id'', JString ''abc'')])
      else if doc = ''{\"id\": 7}'' then Inr (JObject [(''id'', JNumber 7)])
      else Inl ValueError)"

fun valid_metadata :: "json \<Rightarrow> bool" where
  "valid_metadata (JString v) = True"
| "valid_metadata (JArray vs) = list_all valid_metadata vs"
| "valid_metadata (JObject kvs) = list_all valid_metadata (map snd kvs)"
| "valid_metadata v = False"

definition sample_check_location_metadata :: "json \<Rightarrow> exn + unit" where
  "sample_check_location_metadata v =
     (if valid_metadata v then Inr ()
      else Inl (BackendException ''The image metadata has an invalid type''))"

definition sample_lib :: lib where
  "sample_lib =
     \<lparr>urlparse = py_urlparse, md5_hexdigest = py_md5_hexdigest,
      jsonutils_load = sample_json_load,
      check_location_metadata = sample_check_location_metadata\<rparr>"

subsection \<open>Worlds and stores for the examples\<close>

definition empty_world :: world where
  "empty_world = \<lparr>nodes = Map.empty, LOG = []\<rparr>"

definition sample_conf :: config where
  "sample_conf =
     \<lparr>filesystem_store_datadir = Some ''/var/lib/glance/images'',
      filesystem_store_metadata_file = Some ''/etc/glance/metadata.json''\<rparr>"

text \<open>The store before and after \<^verbatim>\<open>configure_add\<close>.\<close>

definition new_store :: Store where
  "new_store = \<lparr>conf = sample_conf, datadir = None\<rparr>"

definition sample_store :: Store where
  "sample_store = \<lparr>conf = sample_conf, datadir = Some ''/var/lib/glance/images''\<rparr>"

text \<open>A store that has no metadata file configured.\<close>

definition plain_store :: Store where
  "plain_store =
     \<lparr>conf = \<lparr>filesystem_store_datadir = Some ''/var/lib/glance/images'',
              filesystem_store_metadata_file = None\<rparr>,
      datadir = Some ''/var/lib/glance/images''\<rparr>"

text \<open>A world with the data directory and a metadata file of the given content.\<close>

definition sample_world :: "string \<Rightarrow> world" where
  "sample_world doc =
     \<lparr>nodes = [''/var/lib/glance/images'' \<mapsto> Dir 4096, ''/etc/glance/metadata.json'' \<mapsto> File doc],
      LOG = []\<rparr>"

text \<open>The world after the image \<^verbatim>\<open>abc\<close> has been stored under the identifier \<^verbatim>\<open>1\<close>.\<close>

definition stored_world :: world where
  "stored_world =
     \<lparr>nodes = [''/var/lib/glance/images'' \<mapsto> Dir 4096,
               ''/etc/glance/metadata.json'' \<mapsto> File ''{\"id\": \"abc\"}'',
               ''/var/lib/glance/images/1'' \<mapsto> File ''abc''],
      LOG = []\<rparr>"

definition sample_location :: Location where
  "sample_location =
     \<lparr>store_location = process_specs [''path'' \<mapsto> ''/var/lib/glance/images/1'']\<rparr>"

section \<open>Locations\<close>

lemmas urlparse_defs = py_urlparse_def split_scheme_def py_find_def scheme_chars_def
  py_lower_def splitnetloc_def split1_def uses_params_def splitparams_def

lemma urlparse_filesystem_example:
  "urlparse sample_lib ''filesystem:///var/lib/glance/images/1'' =
     Inr \<lparr>url_scheme = ''filesystem'', url_netloc = [], url_path = ''/var/lib/glance/images/1'',
       url_params = [], url_query = [], url_fragment = []\<rparr>"
  by (simp add: sample_lib_def urlparse_defs)

lemma urlparse_file_blank_example:
  "urlparse sample_lib ''file://  '' =
     Inr \<lparr>url_scheme = ''file'', url_netloc = ''  '', url_path = [],
       url_params = [], url_query = [], url_fragment = []\<rparr>"
  by (simp add: sample_lib_def urlparse_defs)

lemma urlparse_filesystem_empty_example:
  "urlparse sample_lib ''filesystem://'' =
     Inr \<lparr>url_scheme = ''filesystem'', url_netloc = [], url_path = [],
       url_params = [], url_query = [], url_fragment = []\<rparr>"
  by (simp add: sample_lib_def urlparse_defs)

lemma urlparse_http_example:
  "urlparse sample_lib ''http://example.com/images/1'' =
     Inr \<lparr>url_scheme = ''http'', url_netloc = ''example.com'', url_path = ''/images/1'',
       url_params = [], url_query = [], url_fragment = []\<rparr>"
  by (simp add: sample_lib_def urlparse_defs)

text \<open>
  C5. Let \<^verbatim>\<open>urlparse\<close> split a URI into pieces whose scheme is \<^verbatim>\<open>file\<close> or
  \<^verbatim>\<open>filesystem\<close>, and let the path \<open>p\<close> of the URI, which is its host and path
  components joined and stripped of surrounding whitespace, be non-empty. Then
  \<^verbatim>\<open>parse_uri\<close> returns normally, the location holds the scheme of the URI and the path
  \<open>p\<close>, and \<^verbatim>\<open>get_uri\<close> of that location is \<^verbatim>\<open>file://\<close> followed by \<open>p\<close>, unchanged,
  whichever of the two schemes the URI had.
\<close>

theorem parse_uri_get_uri_roundtrip:
  assumes "urlparse l uri = Inr pieces"
    and "url_scheme pieces = ''file'' \<or> url_scheme pieces = ''filesystem''"
    and "p = strip (url_netloc pieces @ url_path pieces)"
    and "p \<noteq> []"
  shows "parse_uri l self uri s = (Inr (), self\<lparr>scheme := url_scheme pieces, path := Some p\<rparr>, s)
         \<and> get_uri (self\<lparr>scheme := url_scheme pieces, path := Some p\<rparr>) = ''file://'' @ p"
  using assms by (simp add: parse_uri_def get_uri_def str_opt_def Let_def)

theorem parse_uri_get_uri_roundtrip_witness:
  "parse_uri sample_lib (process_specs Map.empty) ''filesystem:///var/lib/glance/images/1'' empty_world
     = (Inr (), \<lparr>scheme = ''filesystem'', path = Some ''/var/lib/glance/images/1''\<rparr>, empty_world)
   \<and> get_uri \<lparr>scheme = ''filesystem'', path = Some ''/var/lib/glance/images/1''\<rparr>
     = ''file:///var/lib/glance/images/1''"
  using parse_uri_get_uri_roundtrip [OF urlparse_filesystem_example, of "''/var/lib/glance/images/1''"
      "process_specs Map.empty" empty_world]
  by (simp add: strip_def py_isspace_def process_specs_def)

text \<open>
  C6. If the scheme of the URI is \<^verbatim>\<open>file\<close> or \<^verbatim>\<open>filesystem\<close> and its host and path
  components, joined and stripped of whitespace, are empty, then \<^verbatim>\<open>parse_uri\<close> raises
  \<^verbatim>\<open>BadStoreUri\<close> (the spec's \<^verbatim>\<open>InvalidLocation\<close>): the scheme has been assigned, the
  cause has been logged and the path is untouched. And whatever the URI, \<^verbatim>\<open>parse_uri\<close>
  leaves the path of the location as it was or sets it to a non-empty string.
\<close>

theorem parse_uri_empty_path:
  "(urlparse l uri = Inr pieces
      \<and> (url_scheme pieces = ''file'' \<or> url_scheme pieces = ''filesystem'')
      \<and> strip (url_netloc pieces @ url_path pieces) = []
    \<longrightarrow> parse_uri l self uri s =
          (Inl (BadStoreUri ''No path specified''), self\<lparr>scheme := url_scheme pieces\<rparr>,
           log_msg DEBUG ''No path specified in URI: %s'' [Str uri] s))
   \<and> (path (fst (snd (parse_uri l self uri s))) = path self
      \<or> (\<exists>q. q \<noteq> [] \<and> path (fst (snd (parse_uri l self uri s))) = Some q))"
  by (simp add: parse_uri_def Let_def split: sum.splits)

theorem parse_uri_empty_path_witness:
  "parse_uri sample_lib (process_specs Map.empty) ''file://  '' empty_world
     = (Inl (BadStoreUri ''No path specified''), \<lparr>scheme = ''file'', path = None\<rparr>,
        log_msg DEBUG ''No path specified in URI: %s'' [Str ''file://  ''] empty_world)
   \<and> parse_uri sample_lib (process_specs Map.empty) ''filesystem://'' empty_world
     = (Inl (BadStoreUri ''No path specified''), \<lparr>scheme = ''filesystem'', path = None\<rparr>,
        log_msg DEBUG ''No path specified in URI: %s'' [Str ''filesystem://''] empty_world)"
  using parse_uri_empty_path [of sample_lib "''file://  ''"
      "\<lparr>url_scheme = ''file'', url_netloc = ''  '', url_path = [],
        url_params = [], url_query = [], url_fragment = []\<rparr>"
      "process_specs Map.empty" empty_world]
    parse_uri_empty_path [of sample_lib "''filesystem://''"
      "\<lparr>url_scheme = ''filesystem'', url_netloc = [], url_path = [],
        url_params = [], url_query = [], url_fragment = []\<rparr>"
      "process_specs Map.empty" empty_world]
  by (simp add: urlparse_file_blank_example urlparse_filesystem_empty_example
      strip_def py_isspace_def process_specs_def)

text \<open>
  C10. If the scheme that \<^verbatim>\<open>urlparse\<close> finds in the URI is neither \<^verbatim>\<open>file\<close> nor
  \<^verbatim>\<open>filesystem\<close>, then \<^verbatim>\<open>parse_uri\<close> fails with \<^verbatim>\<open>AssertionError\<close>, not with
  \<^verbatim>\<open>BadStoreUri\<close>, and nothing of the location has been assigned.
\<close>

theorem parse_uri_unaccepted_scheme:
  assumes "urlparse l uri = Inr pieces"
    and "url_scheme pieces \<noteq> ''file''" and "url_scheme pieces \<noteq> ''filesystem''"
  shows "parse_uri l self uri s = (Inl AssertionError, self, s)"
  using assms by (simp add: parse_uri_def)

theorem parse_uri_unaccepted_scheme_witness:
  "parse_uri sample_lib (process_specs Map.empty) ''http://example.com/images/1'' empty_world
     = (Inl AssertionError, process_specs Map.empty, empty_world)"
  using parse_uri_unaccepted_scheme [OF urlparse_http_example, of "process_specs Map.empty" empty_world]
  by simp

section \<open>The file system and the loops\<close>

subsection \<open>The log\<close>

lemma nodes_log_msg [simp]: "nodes (log_msg lvl msg args s) = nodes s"
  by (simp add: log_msg_def)

lemma LOG_log_msg [simp]: "LOG (log_msg lvl msg args s) = LOG s @ [(lvl, msg, args)]"
  by (simp add: log_msg_def)

lemma os_path_exists_log_msg [simp]:
  "os_path_exists (log_msg lvl msg args s) p = os_path_exists s p"
  by (simp add: os_path_exists_def)

subsection \<open>The reading loop\<close>

lemma read_chunks_empty:
  "read_chunks (FileObj [] r) n = (case r of None \<Rightarrow> StopIteration | Some e \<Rightarrow> Raises e)"
  by (subst read_chunks.simps) (simp split: option.splits)

lemma read_chunks_nonempty:
  assumes "d \<noteq> []" and "0 < n"
  shows "read_chunks (FileObj d r) n = Yield (take n d) (read_chunks (FileObj (drop n d) r) n)"
  using assms by (subst read_chunks.simps) simp

lemma read_chunks_yielded_raised:
  assumes "0 < n"
  shows "concat (yielded (read_chunks (FileObj d r) n)) = d
         \<and> raised (read_chunks (FileObj d r) n) = r"
proof (induction "length d" arbitrary: d rule: less_induct)
  case less
  show ?case
  proof (cases "d = []")
    case True
    then show ?thesis
      by (simp add: read_chunks_empty split: option.splits)
  next
    case False
    with assms have "length (drop n d) < length d"
      by simp
    from less [OF this] False assms show ?thesis
      by (simp add: read_chunks_nonempty)
  qed
qed

lemma chunkreadable_yielded:
  "concat (yielded (chunkreadable (FileObj d r) CHUNKSIZE)) = d"
  by (simp add: chunkreadable_def CHUNKSIZE_def read_chunks_yielded_raised)

lemma chunkreadable_raised:
  "raised (chunkreadable (FileObj d r) CHUNKSIZE) = r"
  by (simp add: chunkreadable_def CHUNKSIZE_def read_chunks_yielded_raised)

subsection \<open>The writing loop\<close>

lemma file_write_cases:
  "file_write fl p i buf s = (r, s') \<Longrightarrow>
     (\<exists>en. write_fault fl i = Some en \<and> r = Inl (IOError (Some en)) \<and> s' = s)
     \<or> (write_fault fl i = None \<and> r = Inr ()
         \<and> LOG s' = LOG s \<and> (\<forall>q. q \<noteq> p \<longrightarrow> nodes s' q = nodes s q)
         \<and> (\<forall>c. nodes s p = Some (File c) \<longrightarrow> nodes s' p = Some (File (c @ buf))))"
  by (auto simp: file_write_def split: option.splits node.splits)

lemma add_loop_Inr:
  "add_loop fl p i g bw ck s = (Inr (bw', ck'), s') \<Longrightarrow>
     raised g = None
     \<and> bw' = bw + length (concat (yielded g))
     \<and> ck' = ck @ concat (yielded g)
     \<and> LOG s' = LOG s
     \<and> (\<forall>q. q \<noteq> p \<longrightarrow> nodes s' q = nodes s q)
     \<and> (\<forall>c. nodes s p = Some (File c) \<longrightarrow> nodes s' p = Some (File (c @ concat (yielded g))))"
proof (induction g arbitrary: i bw ck s)
  case StopIteration
  then show ?case by simp
next
  case (Raises e)
  then show ?case by simp
next
  case (Yield buf g)
  obtain r s1 where w: "file_write fl p i buf s = (r, s1)"
    by (cases "file_write fl p i buf s")
  with Yield.prems obtain
    r: "r = Inr ()" and
    loop: "add_loop fl p (Suc i) g (bw + length buf) (md5_update ck buf) s1 = (Inr (bw', ck'), s')"
    by (cases r) (auto simp: Let_def)
  from file_write_cases [OF w] r have
    s1: "LOG s1 = LOG s" "\<forall>q. q \<noteq> p \<longrightarrow> nodes s1 q = nodes s q"
      "\<forall>c. nodes s p = Some (File c) \<longrightarrow> nodes s1 p = Some (File (c @ buf))"
    by auto
  from Yield.IH [OF loop] s1 show ?case
    by (auto simp: md5_update_def)
qed

lemma add_loop_Inl:
  "add_loop fl p i g bw ck s = (Inl e, s') \<Longrightarrow>
     LOG s' = LOG s
     \<and> (\<forall>q. q \<noteq> p \<longrightarrow> nodes s' q = nodes s q)
     \<and> (\<forall>c. nodes s p = Some (File c) \<longrightarrow> (\<exists>c'. nodes s' p = Some (File c')))"
proof (induction g arbitrary: i bw ck s)
  case StopIteration
  then show ?case by simp
next
  case (Raises e)
  then show ?case by simp
next
  case (Yield buf g)
  obtain r s1 where w: "file_write fl p i buf s = (r, s1)"
    by (cases "file_write fl p i buf s")
  show ?case
  proof (cases r)
    case (Inl e1)
    with w Yield.prems file_write_cases [OF w] show ?thesis
      by (auto simp: Let_def)
  next
    case (Inr u)
    with w Yield.prems have
      loop: "add_loop fl p (Suc i) g (bw + length buf) (md5_update ck buf) s1 = (Inl e, s')"
      by (simp add: Let_def)
    from file_write_cases [OF w] Inr have
      s1: "LOG s1 = LOG s" "\<forall>q. q \<noteq> p \<longrightarrow> nodes s1 q = nodes s q"
        "\<forall>c. nodes s p = Some (File c) \<longrightarrow> nodes s1 p = Some (File (c @ buf))"
      by auto
    from Yield.IH [OF loop] s1 show ?thesis
      by auto
  qed
qed

text \<open>With no write failing, the loop ends as the generator does, with all chunks written.\<close>

lemma add_loop_no_write_fault:
  assumes "\<forall>i. write_fault fl i = None" and "nodes s p = Some (File c)"
  shows "add_loop fl p i g bw ck s =
           ((case raised g of
               None \<Rightarrow> Inr (bw + length (concat (yielded g)), ck @ concat (yielded g))
             | Some e \<Rightarrow> Inl e),
            s\<lparr>nodes := (nodes s)(p \<mapsto> File (c @ concat (yielded g)))\<rparr>)"
  using assms(2)
proof (induction g arbitrary: i bw ck s c)
  case StopIteration
  then have "(nodes s)(p \<mapsto> File c) = nodes s"
    by (simp add: map_upd_triv)
  then show ?case by simp
next
  case (Raises e)
  then have "(nodes s)(p \<mapsto> File c) = nodes s"
    by (simp add: map_upd_triv)
  then show ?case by simp
next
  case (Yield buf g)
  let ?s1 = "s\<lparr>nodes := (nodes s)(p \<mapsto> File (c @ buf))\<rparr>"
  from assms(1) Yield.prems have w: "file_write fl p i buf s = (Inr (), ?s1)"
    by (simp add: file_write_def)
  have n1: "nodes ?s1 p = Some (File (c @ buf))"
    by simp
  have upd: "?s1\<lparr>nodes := (nodes ?s1)(p \<mapsto> File ((c @ buf) @ concat (yielded g)))\<rparr>
      = s\<lparr>nodes := (nodes s)(p \<mapsto> File (c @ concat (yielded (Yield buf g))))\<rparr>"
    by simp
  have "add_loop fl p i (Yield buf g) bw ck s
      = add_loop fl p (Suc i) g (bw + length buf) (ck @ buf) ?s1"
    by (simp add: w md5_update_def)
  also have "\<dots> =
      ((case raised g of
          None \<Rightarrow> Inr (bw + length buf + length (concat (yielded g)), (ck @ buf) @ concat (yielded g))
        | Some e \<Rightarrow> Inl e),
       ?s1\<lparr>nodes := (nodes ?s1)(p \<mapsto> File ((c @ buf) @ concat (yielded g)))\<rparr>)"
    by (rule Yield.IH [OF n1])
  finally have eq: "add_loop fl p i (Yield buf g) bw ck s =
      ((case raised g of
          None \<Rightarrow> Inr (bw + length buf + length (concat (yielded g)), (ck @ buf) @ concat (yielded g))
        | Some e \<Rightarrow> Inl e),
       ?s1\<lparr>nodes := (nodes ?s1)(p \<mapsto> File ((c @ buf) @ concat (yielded g)))\<rparr>)" .
  have r: "(case raised g of
          None \<Rightarrow> Inr (bw + length buf + length (concat (yielded g)), (ck @ buf) @ concat (yielded g))
        | Some e \<Rightarrow> Inl e)
      = (case raised (Yield buf g) of
          None \<Rightarrow> Inr (bw + length (concat (yielded (Yield buf g))), ck @ concat (yielded (Yield buf g)))
        | Some e \<Rightarrow> Inl e)"
    by (simp split: option.splits)
  show ?case
    by (simp only: eq upd r)
qed

section \<open>The metadata document\<close>

lemma get_metadata_try_Inl_iff:
  "(\<exists>e. get_metadata_try l fl mf s = Inl e) \<longleftrightarrow>
     nodes s mf = None
     \<or> (\<exists>n. nodes s mf = Some (Dir n))
     \<or> (\<exists>c. nodes s mf = Some (File c)
          \<and> (open_fault fl mf \<noteq> None
              \<or> (\<exists>e. jsonutils_load l c = Inl e)
              \<or> (\<exists>v e. jsonutils_load l c = Inr v \<and> check_location_metadata l v = Inl e)))"
  by (auto simp: get_metadata_try_def open_read_def split: option.splits node.splits sum.splits)

lemma get_metadata_unconfigured:
  "filesystem_store_metadata_file (conf self) = None \<Longrightarrow>
     get_metadata l fl self s = (Inr (JObject []), s)"
  by (simp add: get_metadata_def)

lemma get_metadata_loaded:
  "filesystem_store_metadata_file (conf self) = Some mf \<Longrightarrow> get_metadata_try l fl mf s = Inr m \<Longrightarrow>
     get_metadata l fl self s = (Inr m, s)"
  by (simp add: get_metadata_def)

lemma get_metadata_failed:
  assumes "filesystem_store_metadata_file (conf self) = Some mf"
    and "get_metadata_try l fl mf s = Inl e"
  shows "\<exists>lvl msg args.
           get_metadata l fl self s = (Inr (JObject []), log_msg lvl msg args s)
           \<and> (lvl = ERROR \<or> lvl = EXCEPTION) \<and> Exn e \<in> set args"
  using assms by (cases e) (fastforce simp: get_metadata_def)+

lemma get_metadata_Inr: "\<exists>m. fst (get_metadata l fl self s) = Inr m"
proof (cases "filesystem_store_metadata_file (conf self)")
  case None
  then show ?thesis
    by (simp add: get_metadata_unconfigured)
next
  case (Some mf)
  show ?thesis
  proof (cases "get_metadata_try l fl mf s")
    case (Inl e)
    from get_metadata_failed [OF Some Inl] show ?thesis
      by auto
  next
    case (Inr m)
    from get_metadata_loaded [OF Some Inr] show ?thesis
      by simp
  qed
qed

lemma get_metadata_nodes [simp]: "nodes (snd (get_metadata l fl self s)) = nodes s"
proof (cases "filesystem_store_metadata_file (conf self)")
  case None
  then show ?thesis
    by (simp add: get_metadata_unconfigured)
next
  case (Some mf)
  show ?thesis
  proof (cases "get_metadata_try l fl mf s")
    case (Inl e)
    from get_metadata_failed [OF Some Inl] show ?thesis
      by auto
  next
    case (Inr m)
    from get_metadata_loaded [OF Some Inr] show ?thesis
      by simp
  qed
qed

text \<open>What \<^verbatim>\<open>_get_metadata\<close> returns depends on the files only, not on the log.\<close>

lemma get_metadata_try_nodes_cong:
  "nodes s = nodes t \<Longrightarrow> get_metadata_try l fl mf s = get_metadata_try l fl mf t"
  by (simp add: get_metadata_try_def open_read_def)

lemma get_metadata_nodes_cong:
  assumes "nodes s = nodes t"
  shows "fst (get_metadata l fl self s) = fst (get_metadata l fl self t)"
proof -
  have "\<And>mf. get_metadata_try l fl mf s = get_metadata_try l fl mf t"
    using assms by (rule get_metadata_try_nodes_cong)
  then show ?thesis
    by (simp add: get_metadata_def split: option.splits sum.splits exn.splits)
qed

text \<open>
  C7. \<^verbatim>\<open>_get_metadata\<close> never raises: it always returns a document. With no metadata
  file configured it returns the empty dict and does nothing else. When anything in its
  \<^verbatim>\<open>try\<close> block raises, it returns the empty dict, leaves the files alone and logs one
  record that carries the exception; and the block raises when the file is missing,
  when it cannot be opened, when its content is not JSON and when the document fails the
  validation of its shape.
\<close>

theorem get_metadata_never_raises:
  "(\<exists>m. fst (get_metadata l fl self s) = Inr m)
   \<and> (filesystem_store_metadata_file (conf self) = None
        \<longrightarrow> get_metadata l fl self s = (Inr (JObject []), s))
   \<and> (\<forall>mf e. filesystem_store_metadata_file (conf self) = Some mf
          \<and> get_metadata_try l fl mf s = Inl e
        \<longrightarrow> (\<exists>lvl msg args.
               get_metadata l fl self s = (Inr (JObject []), log_msg lvl msg args s)
               \<and> (lvl = ERROR \<or> lvl = EXCEPTION) \<and> Exn e \<in> set args))
   \<and> (\<forall>mf c. nodes s mf = None
          \<or> (nodes s mf = Some (File c)
              \<and> (open_fault fl mf \<noteq> None
                  \<or> (\<exists>e. jsonutils_load l c = Inl e)
                  \<or> (\<exists>v e. jsonutils_load l c = Inr v \<and> check_location_metadata l v = Inl e)))
        \<longrightarrow> (\<exists>e. get_metadata_try l fl mf s = Inl e))"
proof (intro conjI allI impI)
  show "\<exists>m. fst (get_metadata l fl self s) = Inr m"
    by (rule get_metadata_Inr)
next
  assume "filesystem_store_metadata_file (conf self) = None"
  then show "get_metadata l fl self s = (Inr (JObject []), s)"
    by (rule get_metadata_unconfigured)
next
  fix mf e
  assume "filesystem_store_metadata_file (conf self) = Some mf \<and> get_metadata_try l fl mf s = Inl e"
  then show "\<exists>lvl msg args.
      get_metadata l fl self s = (Inr (JObject []), log_msg lvl msg args s)
      \<and> (lvl = ERROR \<or> lvl = EXCEPTION) \<and> Exn e \<in> set args"
    using get_metadata_failed by blast
next
  fix mf c
  assume "nodes s mf = None
     \<or> (nodes s mf = Some (File c)
         \<and> (open_fault fl mf \<noteq> None
             \<or> (\<exists>e. jsonutils_load l c = Inl e)
             \<or> (\<exists>v e. jsonutils_load l c = Inr v \<and> check_location_metadata l v = Inl e)))"
  then show "\<exists>e. get_metadata_try l fl mf s = Inl e"
    unfolding get_metadata_try_Inl_iff by blast
qed

text \<open>
  The four failures at work: no file, a file that cannot be opened, a file that is not
  JSON, and a JSON document with a number in it. Each time the result is the empty dict.
\<close>

theorem get_metadata_never_raises_witness:
  "get_metadata sample_lib no_faults sample_store empty_world =
     (Inr (JObject []),
      log_msg ERROR
        ''The path for the metadata file %s could not be opened: %s  An empty dictionary will be returned to the client.''
        [Str ''/etc/glance/metadata.json'', Exn (IOError (Some ENOENT))] empty_world)
   \<and> fst (get_metadata sample_lib
          (no_faults\<lparr>open_fault := (\<lambda>p. Some EACCES)\<rparr>) sample_store (sample_world ''{}''))
       = Inr (JObject [])
   \<and> get_metadata sample_lib no_faults sample_store (sample_world ''{'') =
     (Inr (JObject []),
      log_msg EXCEPTION
        ''An error occurred processing the storage systems meta data file: %s.  An empty dictionary will be returned to the client.''
        [Exn ValueError] (sample_world ''{''))
   \<and> get_metadata sample_lib no_faults sample_store (sample_world ''{\"id\": 7}'') =
     (Inr (JObject []),
      log_msg ERROR
        ''The JSON in the metadata file %s could not be used: %s  An empty dictionary will be returned to the client.''
        [Str ''/etc/glance/metadata.json'',
         Exn (BackendException ''The image metadata has an invalid type'')]
        (sample_world ''{\"id\": 7}''))
   \<and> get_metadata sample_lib no_faults plain_store empty_world = (Inr (JObject []), empty_world)
   \<and> get_metadata sample_lib no_faults sample_store (sample_world ''{\"id\": \"abc\"}'')
       = (Inr (JObject [(''id'', JString ''abc'')]), sample_world ''{\"id\": \"abc\"}'')"
  using get_metadata_never_raises [of sample_lib no_faults sample_store empty_world]
  by (simp add: get_metadata_def get_metadata_try_def open_read_def sample_store_def
      plain_store_def sample_conf_def empty_world_def sample_world_def no_faults_def
      sample_lib_def sample_json_load_def sample_check_location_metadata_def)

section \<open>Configuration\<close>

lemma os_makedirs_cases:
  assumes "\<not> os_path_exists s d"
  shows "os_makedirs fl d s =
           (case makedirs_fault fl of
              None \<Rightarrow> (Inr (), s\<lparr>nodes := (nodes s)(d \<mapsto> Dir (new_dir_size fl))\<rparr>)
            | Some (en, raced) \<Rightarrow>
                (Inl (OSError (Some en)),
                 if raced then s\<lparr>nodes := (nodes s)(d \<mapsto> Dir (new_dir_size fl))\<rparr> else s))"
  using assms by (simp add: os_makedirs_def)

text \<open>The four ways through \<^verbatim>\<open>configure_add\<close>.\<close>

lemma configure_add_unset:
  assumes "filesystem_store_datadir (conf self) = None"
  shows "configure_add fl self s =
           (Inl (BadStoreConfiguration ''filesystem''
                   ''Could not find filesystem_store_datadir in configuration options.''),
            self\<lparr>datadir := None\<rparr>,
            log_msg ERROR ''Could not find filesystem_store_datadir in configuration options.'' [] s)"
  using assms by (simp add: configure_add_def Let_def)

lemma configure_add_exists:
  assumes "filesystem_store_datadir (conf self) = Some d" and "os_path_exists s d"
  shows "configure_add fl self s = (Inr (), self\<lparr>datadir := Some d\<rparr>, s)"
  using assms by (simp add: configure_add_def Let_def)

lemma configure_add_created:
  assumes "filesystem_store_datadir (conf self) = Some d" and "\<not> os_path_exists s d"
    and "makedirs_fault fl = None \<or> makedirs_fault fl = Some (en, True)"
  shows "configure_add fl self s =
           (Inr (), self\<lparr>datadir := Some d\<rparr>,
            (log_msg INFO ''Directory to write image files does not exist (%s). Creating.'' [Str d] s)
              \<lparr>nodes := (nodes s)(d \<mapsto> Dir (new_dir_size fl))\<rparr>)"
  using assms
  by (auto simp: configure_add_def Let_def os_makedirs_cases configure_add_except_def os_path_exists_def)

lemma configure_add_not_created:
  assumes "filesystem_store_datadir (conf self) = Some d" and "\<not> os_path_exists s d"
    and "makedirs_fault fl = Some (en, False)"
  shows "configure_add fl self s =
           (Inl (BadStoreConfiguration ''filesystem'' (''Unable to create datadir: '' @ d)),
            self\<lparr>datadir := Some d\<rparr>,
            log_msg ERROR ''Unable to create datadir: %s'' [Str d]
              (log_msg INFO ''Directory to write image files does not exist (%s). Creating.'' [Str d] s))"
  using assms
  by (simp add: configure_add_def Let_def os_makedirs_cases configure_add_except_def)

lemma configure_add_BadStoreConfiguration_iff:
  "(\<exists>a b. fst (configure_add fl self s) = Inl (BadStoreConfiguration a b)) \<longleftrightarrow>
     filesystem_store_datadir (conf self) = None
     \<or> (\<exists>d en. filesystem_store_datadir (conf self) = Some d \<and> \<not> os_path_exists s d
           \<and> makedirs_fault fl = Some (en, False))"
proof (cases "filesystem_store_datadir (conf self)")
  case None
  then show ?thesis
    by (simp add: configure_add_unset)
next
  case (Some d)
  show ?thesis
  proof (cases "os_path_exists s d")
    case True
    with Some show ?thesis
      by (simp add: configure_add_exists)
  next
    case False
    show ?thesis
    proof (cases "makedirs_fault fl")
      case None
      with Some False show ?thesis
        by (simp add: configure_add_created)
    next
      case (Some f)
      obtain en raced where f: "f = (en, raced)"
        by (cases f)
      show ?thesis
      proof (cases raced)
        case True
        with \<open>filesystem_store_datadir (conf self) = Some d\<close> False Some f show ?thesis
          by (simp add: configure_add_created [where en = en])
      next
        case raced: False
        with \<open>filesystem_store_datadir (conf self) = Some d\<close> False Some f show ?thesis
          by (simp add: configure_add_not_created)
      qed
    qed
  qed
qed

lemma configure_add_Inr_or_BadStoreConfiguration:
  "fst (configure_add fl self s) = Inr ()
   \<or> (\<exists>a b. fst (configure_add fl self s) = Inl (BadStoreConfiguration a b))"
proof (cases "filesystem_store_datadir (conf self)")
  case None
  then show ?thesis
    by (simp add: configure_add_unset)
next
  case (Some d)
  show ?thesis
  proof (cases "os_path_exists s d")
    case True
    with Some show ?thesis
      by (simp add: configure_add_exists)
  next
    case False
    show ?thesis
    proof (cases "makedirs_fault fl")
      case None
      with Some False show ?thesis
        by (simp add: configure_add_created)
    next
      case (Some f)
      obtain en raced where f: "f = (en, raced)"
        by (cases f)
      show ?thesis
      proof (cases raced)
        case True
        with \<open>filesystem_store_datadir (conf self) = Some d\<close> False Some f show ?thesis
          by (simp add: configure_add_created [where en = en])
      next
        case raced: False
        with \<open>filesystem_store_datadir (conf self) = Some d\<close> False Some f show ?thesis
          by (simp add: configure_add_not_created)
      qed
    qed
  qed
qed

text \<open>After a call that succeeded, the store knows its directory and the path exists.\<close>

lemma configure_add_Inr:
  assumes "configure_add fl self s = (Inr (), self', s')"
  shows "\<exists>d. filesystem_store_datadir (conf self) = Some d \<and> self' = self\<lparr>datadir := Some d\<rparr>
           \<and> os_path_exists s' d"
proof (cases "filesystem_store_datadir (conf self)")
  case None
  with assms show ?thesis
    by (simp add: configure_add_unset)
next
  case (Some d)
  show ?thesis
  proof (cases "os_path_exists s d")
    case True
    with Some assms show ?thesis
      by (simp add: configure_add_exists)
  next
    case False
    show ?thesis
    proof (cases "makedirs_fault fl = None \<or> (\<exists>en. makedirs_fault fl = Some (en, True))")
      case True
      then obtain en where "makedirs_fault fl = None \<or> makedirs_fault fl = Some (en, True)"
        by blast
      from configure_add_created [OF Some False this] assms Some show ?thesis
        by (auto simp: os_path_exists_def)
    next
      case no: False
      then obtain en where "makedirs_fault fl = Some (en, False)"
        by (cases "makedirs_fault fl") auto
      from configure_add_not_created [OF Some False this] assms show ?thesis
        by simp
    qed
  qed
qed

text \<open>
  C8. \<^verbatim>\<open>configure_add\<close> raises \<^verbatim>\<open>BadStoreConfiguration\<close> (the spec's
  \<^verbatim>\<open>BadConfiguration\<close>) exactly when the data directory is not configured, or when its
  path does not exist, \<^verbatim>\<open>os.makedirs\<close> fails and the path still does not exist
  afterwards. In every other case it returns normally; so it does when \<^verbatim>\<open>os.makedirs\<close>
  fails and the path exists on the second look. After a call that returned normally the
  store holds the configured path, the path exists, and any further call returns
  normally and changes nothing.
\<close>

theorem configure_add_fails_iff:
  "((\<exists>a b. fst (configure_add fl self s) = Inl (BadStoreConfiguration a b)) \<longleftrightarrow>
      filesystem_store_datadir (conf self) = None
      \<or> (\<exists>d en. filesystem_store_datadir (conf self) = Some d \<and> \<not> os_path_exists s d
            \<and> makedirs_fault fl = Some (en, False)))
   \<and> (fst (configure_add fl self s) = Inr ()
       \<or> (\<exists>a b. fst (configure_add fl self s) = Inl (BadStoreConfiguration a b)))
   \<and> (\<forall>d en. filesystem_store_datadir (conf self) = Some d \<and> \<not> os_path_exists s d
          \<and> makedirs_fault fl = Some (en, True)
        \<longrightarrow> fst (configure_add fl self s) = Inr ())
   \<and> (\<forall>self' s'. configure_add fl self s = (Inr (), self', s')
        \<longrightarrow> (\<exists>d. filesystem_store_datadir (conf self) = Some d \<and> datadir self' = Some d
               \<and> os_path_exists s' d)
            \<and> (\<forall>fl'. configure_add fl' self' s' = (Inr (), self', s')))"
proof (intro conjI allI impI)
  show "(\<exists>a b. fst (configure_add fl self s) = Inl (BadStoreConfiguration a b)) \<longleftrightarrow>
      filesystem_store_datadir (conf self) = None
      \<or> (\<exists>d en. filesystem_store_datadir (conf self) = Some d \<and> \<not> os_path_exists s d
            \<and> makedirs_fault fl = Some (en, False))"
    by (rule configure_add_BadStoreConfiguration_iff)
next
  show "fst (configure_add fl self s) = Inr ()
       \<or> (\<exists>a b. fst (configure_add fl self s) = Inl (BadStoreConfiguration a b))"
    by (rule configure_add_Inr_or_BadStoreConfiguration)
next
  fix d en
  assume "filesystem_store_datadir (conf self) = Some d \<and> \<not> os_path_exists s d
          \<and> makedirs_fault fl = Some (en, True)"
  then show "fst (configure_add fl self s) = Inr ()"
    by (simp add: configure_add_created [where en = en])
next
  fix self' s'
  assume ok: "configure_add fl self s = (Inr (), self', s')"
  from configure_add_Inr [OF ok] obtain d where
    d: "filesystem_store_datadir (conf self) = Some d" "self' = self\<lparr>datadir := Some d\<rparr>"
      "os_path_exists s' d"
    by blast
  then show "\<exists>d. filesystem_store_datadir (conf self) = Some d \<and> datadir self' = Some d
               \<and> os_path_exists s' d"
    by simp
  fix fl'
  from d have "filesystem_store_datadir (conf self') = Some d"
    by simp
  from configure_add_exists [OF this d(3)] d(2) show "configure_add fl' self' s' = (Inr (), self', s')"
    by simp
qed

text \<open>
  The directory is created on the first call; a second call finds it. When
  \<^verbatim>\<open>os.makedirs\<close> fails because another process created the directory first, the call
  returns normally all the same; when it fails and the directory is still missing, the
  call raises.
\<close>

theorem configure_add_fails_iff_witness:
  "configure_add no_faults new_store empty_world =
     (Inr (), sample_store,
      \<lparr>nodes = [''/var/lib/glance/images'' \<mapsto> Dir 4096],
       LOG = [(INFO, ''Directory to write image files does not exist (%s). Creating.'',
               [Str ''/var/lib/glance/images''])]\<rparr>)
   \<and> configure_add no_faults sample_store
       \<lparr>nodes = [''/var/lib/glance/images'' \<mapsto> Dir 4096],
        LOG = [(INFO, ''Directory to write image files does not exist (%s). Creating.'',
                [Str ''/var/lib/glance/images''])]\<rparr> =
     (Inr (), sample_store,
      \<lparr>nodes = [''/var/lib/glance/images'' \<mapsto> Dir 4096],
       LOG = [(INFO, ''Directory to write image files does not exist (%s). Creating.'',
               [Str ''/var/lib/glance/images''])]\<rparr>)
   \<and> fst (configure_add (no_faults\<lparr>makedirs_fault := Some (EEXIST, True)\<rparr>) new_store empty_world)
       = Inr ()
   \<and> fst (configure_add (no_faults\<lparr>makedirs_fault := Some (EACCES, False)\<rparr>) new_store empty_world)
       = Inl (BadStoreConfiguration ''filesystem'' ''Unable to create datadir: /var/lib/glance/images'')"
  using configure_add_fails_iff [of no_faults new_store empty_world]
    configure_add_fails_iff [of "no_faults\<lparr>makedirs_fault := Some (EEXIST, True)\<rparr>" new_store empty_world]
    configure_add_fails_iff [of "no_faults\<lparr>makedirs_fault := Some (EACCES, False)\<rparr>" new_store empty_world]
  by (simp add: configure_add_def Let_def configure_add_except_def os_makedirs_def os_path_exists_def
      new_store_def sample_store_def sample_conf_def empty_world_def no_faults_def log_msg_def)

section \<open>Adding an image\<close>

lemma open_write_new:
  assumes "\<not> os_path_exists s p"
  shows "open_write fl p s =
           (case open_fault fl p of
              Some en \<Rightarrow> (Inl (IOError (Some en)), s)
            | None \<Rightarrow> (Inr (), s\<lparr>nodes := (nodes s)(p \<mapsto> File [])\<rparr>))"
  using assms by (simp add: open_write_def os_path_exists_def)

text \<open>When the \<^verbatim>\<open>try\<close> block ends normally, the whole stream is in the file.\<close>

lemma add_try_Inr:
  assumes new: "\<not> os_path_exists s p"
    and ok: "add_try fl p (FileObj d r) s = (Inr (bw, ck), s1)"
  shows "r = None \<and> bw = length d \<and> ck = d \<and> nodes s1 = (nodes s)(p \<mapsto> File d) \<and> LOG s1 = LOG s"
proof -
  let ?s0 = "s\<lparr>nodes := (nodes s)(p \<mapsto> File [])\<rparr>"
  let ?g = "chunkreadable (FileObj d r) CHUNKSIZE"
  from ok new have opened: "open_fault fl p = None"
    and loop: "add_loop fl p 0 ?g 0 hashlib_md5 ?s0 = (Inr (bw, ck), s1)"
    by (auto simp: add_try_def open_write_new split: option.splits)
  have "nodes ?s0 p = Some (File [])"
    by simp
  with add_loop_Inr [OF loop] have
    g: "raised ?g = None" "bw = length (concat (yielded ?g))" "ck = hashlib_md5 @ concat (yielded ?g)"
    and l: "LOG s1 = LOG s"
    and others: "\<forall>q. q \<noteq> p \<longrightarrow> nodes s1 q = nodes ?s0 q"
    and written: "nodes s1 p = Some (File (concat (yielded ?g)))"
    by simp_all
  from others written have "nodes s1 = (nodes s)(p \<mapsto> File (concat (yielded ?g)))"
    by (intro ext) simp
  with g l show ?thesis
    by (simp add: chunkreadable_yielded chunkreadable_raised hashlib_md5_def)
qed

text \<open>
  When the file can be opened and no write fails, the \<^verbatim>\<open>try\<close> block ends as the stream
  does, with every byte that the stream delivered in the file.
\<close>

lemma add_try_no_fault:
  assumes "\<not> os_path_exists s p" and "open_fault fl p = None" and "\<forall>i. write_fault fl i = None"
  shows "add_try fl p (FileObj d r) s =
           ((case r of None \<Rightarrow> Inr (length d, d) | Some e \<Rightarrow> Inl e),
            s\<lparr>nodes := (nodes s)(p \<mapsto> File d)\<rparr>)"
proof -
  let ?s0 = "s\<lparr>nodes := (nodes s)(p \<mapsto> File [])\<rparr>"
  let ?g = "chunkreadable (FileObj d r) CHUNKSIZE"
  have n0: "nodes ?s0 p = Some (File [])"
    by simp
  have upd: "?s0\<lparr>nodes := (nodes ?s0)(p \<mapsto> File ([] @ concat (yielded ?g)))\<rparr>
      = s\<lparr>nodes := (nodes s)(p \<mapsto> File d)\<rparr>"
    by (simp add: chunkreadable_yielded)
  from assms have "add_try fl p (FileObj d r) s = add_loop fl p 0 ?g 0 hashlib_md5 ?s0"
    by (simp add: add_try_def open_write_new)
  also note add_loop_no_write_fault [OF assms(3) n0, of 0 ?g 0 hashlib_md5]
  finally show ?thesis
    unfolding upd
    by (simp add: chunkreadable_yielded chunkreadable_raised hashlib_md5_def split: option.splits)
qed

lemma delete_partial_removed:
  assumes "nodes s p = Some (File c)" and "unlink_fault fl p = None"
  shows "delete_partial fl p iid s = s\<lparr>nodes := (nodes s)(p := None)\<rparr>"
  using assms by (simp add: delete_partial_def os_unlink_def)

lemma delete_partial_failed:
  assumes "nodes s p = Some (File c)" and "unlink_fault fl p = Some en"
  shows "delete_partial fl p iid s =
           log_msg ERROR ''Unable to remove partial image data for image %s: %s''
             [Str iid, Exn (OSError (Some en))] s"
  using assms by (simp add: delete_partial_def os_unlink_def)

lemma delete_partial_nodes:
  "nodes (delete_partial fl p iid s) q = nodes s q \<or> (q = p \<and> nodes (delete_partial fl p iid s) q = None)"
  by (simp add: delete_partial_def os_unlink_def split: option.splits node.splits)

lemma add_Duplicate:
  assumes "datadir self = Some d" and "os_path_exists s (os_path_join d image_id)"
  shows "add l fl self image_id image_file image_size s = (Inl (Duplicate (os_path_join d image_id)), s)"
  using assms by (simp add: add_def)

text \<open>What a successful \<^verbatim>\<open>add\<close> has done and what it returns.\<close>

lemma add_Inr:
  assumes ok: "add l fl self image_id (FileObj bs r) image_size s = (Inr (uri, bw, ck, md), s')"
  shows "\<exists>d. datadir self = Some d
           \<and> \<not> os_path_exists s (os_path_join d image_id)
           \<and> r = None
           \<and> uri = ''file://'' @ os_path_join d image_id
           \<and> bw = length bs
           \<and> ck = md5_hexdigest l bs
           \<and> nodes s' = (nodes s)(os_path_join d image_id \<mapsto> File bs)
           \<and> fst (get_metadata l fl self s') = Inr md"
proof -
  from ok obtain d where d: "datadir self = Some d"
    by (cases "datadir self") (simp_all add: add_def)
  let ?p = "os_path_join d image_id"
  from ok d have new: "\<not> os_path_exists s ?p"
    by (auto simp: add_def)
  obtain t s1 where t: "add_try fl ?p (FileObj bs r) s = (t, s1)"
    by (cases "add_try fl ?p (FileObj bs r) s")
  from ok d new t obtain bw1 ck1 where t1: "t = Inr (bw1, ck1)"
    by (cases t) (auto simp: add_def Let_def split: exn.splits)
  obtain m s2 where m: "get_metadata l fl self s1 = (m, s2)"
    by (cases "get_metadata l fl self s1")
  from ok d new t t1 m have res: "m = Inr md" "uri = ''file://'' @ ?p" "bw = bw1" "ck = hexdigest l ck1"
    and s': "nodes s' = nodes s2"
    by (auto simp: add_def Let_def split: sum.splits)
  from m have s2: "nodes s2 = nodes s1"
    using get_metadata_nodes [of l fl self s1] by simp
  from add_try_Inr [OF new t [unfolded t1]] have
    w: "r = None" "bw1 = length bs" "ck1 = bs" "nodes s1 = (nodes s)(?p \<mapsto> File bs)"
    by simp_all
  have "fst (get_metadata l fl self s') = fst (get_metadata l fl self s1)"
    by (rule get_metadata_nodes_cong) (simp add: s' s2)
  with m res have "fst (get_metadata l fl self s') = Inr md"
    by simp
  with d new res w s' s2 show ?thesis
    by (simp add: hexdigest_def)
qed

text \<open>An example: the image \<^verbatim>\<open>abc\<close> is added under the identifier \<^verbatim>\<open>1\<close>.\<close>

lemma sample_path: "os_path_join ''/var/lib/glance/images'' ''1'' = ''/var/lib/glance/images/1''"
  by (simp add: os_path_join_def)

lemma add_example:
  "add sample_lib no_faults sample_store ''1'' (FileObj ''abc'' None) 3 (sample_world ''{\"id\": \"abc\"}'') =
     (Inr (''file:///var/lib/glance/images/1'', 3, py_md5_hexdigest ''abc'',
           JObject [(''id'', JString ''abc'')]),
      stored_world
        \<lparr>LOG := [(DEBUG, ''Wrote %(bytes_written)d bytes to %(filepath)s with checksum %(checksum_hex)s'',
                  [Num 3, Str ''/var/lib/glance/images/1'', Str (py_md5_hexdigest ''abc'')])]\<rparr>)"
proof -
  let ?s = "sample_world ''{\"id\": \"abc\"}''"
  let ?p = "''/var/lib/glance/images/1''"
  have dd: "datadir sample_store = Some ''/var/lib/glance/images''"
    by (simp add: sample_store_def)
  have new: "\<not> os_path_exists ?s ?p"
    by (simp add: os_path_exists_def sample_world_def)
  have stored: "?s\<lparr>nodes := (nodes ?s)(?p \<mapsto> File ''abc'')\<rparr> = stored_world"
    by (simp add: sample_world_def stored_world_def)
  have "add_try no_faults ?p (FileObj ''abc'' None) ?s
      = (Inr (3, ''abc''), ?s\<lparr>nodes := (nodes ?s)(?p \<mapsto> File ''abc'')\<rparr>)"
    using add_try_no_fault [OF new, of no_faults "''abc''" None] by (simp add: no_faults_def)
  then have tried: "add_try no_faults ?p (FileObj ''abc'' None) ?s = (Inr (3, ''abc''), stored_world)"
    by (simp only: stored)
  have md: "get_metadata sample_lib no_faults sample_store stored_world
      = (Inr (JObject [(''id'', JString ''abc'')]), stored_world)"
    by (simp add: get_metadata_def get_metadata_try_def open_read_def sample_store_def
        sample_conf_def stored_world_def no_faults_def sample_lib_def sample_json_load_def
        sample_check_location_metadata_def)
  have hex: "hexdigest sample_lib ''abc'' = py_md5_hexdigest ''abc''"
    by (simp add: hexdigest_def sample_lib_def)
  have lg: "LOG stored_world = []"
    by (simp add: stored_world_def)
  show ?thesis
    by (simp add: add_def Let_def dd sample_path new tried md hex log_msg_def lg)
qed

text \<open>
  C3. If a file exists at the target path, the data directory joined with the image
  identifier, then \<^verbatim>\<open>add\<close> raises \<^verbatim>\<open>Duplicate\<close> and the file system and the log are as
  they were: nothing has been opened or written. In particular, after an \<^verbatim>\<open>add\<close> that
  succeeded, every further \<^verbatim>\<open>add\<close> with the same identifier raises \<^verbatim>\<open>Duplicate\<close> and
  leaves the state alone, in which the file holds the bytes of the first call.
\<close>

theorem add_duplicate:
  "(datadir self = Some d \<and> os_path_exists s (os_path_join d image_id)
      \<longrightarrow> add l fl self image_id image_file image_size s
            = (Inl (Duplicate (os_path_join d image_id)), s))
   \<and> (\<forall>res s1. datadir self = Some d
          \<and> add l fl self image_id (FileObj bs r) n s = (Inr res, s1)
      \<longrightarrow> nodes s1 (os_path_join d image_id) = Some (File bs)
          \<and> add l fl' self image_id image_file image_size s1
            = (Inl (Duplicate (os_path_join d image_id)), s1))"
proof (intro conjI allI impI)
  assume "datadir self = Some d \<and> os_path_exists s (os_path_join d image_id)"
  then show "add l fl self image_id image_file image_size s
      = (Inl (Duplicate (os_path_join d image_id)), s)"
    by (simp add: add_Duplicate)
next
  fix res s1
  assume a: "datadir self = Some d \<and> add l fl self image_id (FileObj bs r) n s = (Inr res, s1)"
  obtain uri bw ck md where "res = (uri, bw, ck, md)"
    by (cases res)
  with a add_Inr [of l fl self image_id bs r n s uri bw ck md s1]
  show written: "nodes s1 (os_path_join d image_id) = Some (File bs)"
    by auto
  then have "os_path_exists s1 (os_path_join d image_id)"
    by (simp add: os_path_exists_def)
  with a show "add l fl' self image_id image_file image_size s1
      = (Inl (Duplicate (os_path_join d image_id)), s1)"
    by (simp add: add_Duplicate)
qed

theorem add_duplicate_witness:
  "add sample_lib no_faults sample_store ''1'' (FileObj ''xyz'' None) 3 stored_world
     = (Inl (Duplicate ''/var/lib/glance/images/1''), stored_world)
   \<and> nodes stored_world ''/var/lib/glance/images/1'' = Some (File ''abc'')
   \<and> add sample_lib no_faults sample_store ''1'' (FileObj ''xyz'' None) 3
       (stored_world
          \<lparr>LOG := [(DEBUG, ''Wrote %(bytes_written)d bytes to %(filepath)s with checksum %(checksum_hex)s'',
                    [Num 3, Str ''/var/lib/glance/images/1'', Str (py_md5_hexdigest ''abc'')])]\<rparr>)
     = (Inl (Duplicate ''/var/lib/glance/images/1''),
        stored_world
          \<lparr>LOG := [(DEBUG, ''Wrote %(bytes_written)d bytes to %(filepath)s with checksum %(checksum_hex)s'',
                    [Num 3, Str ''/var/lib/glance/images/1'', Str (py_md5_hexdigest ''abc'')])]\<rparr>)"
  using add_duplicate [of sample_store "''/var/lib/glance/images''" stored_world "''1''"
      sample_lib no_faults "FileObj ''xyz'' None" 3 "''abc''" None 3 no_faults]
    add_duplicate [of sample_store "''/var/lib/glance/images''" "sample_world ''{\"id\": \"abc\"}''" "''1''"
      sample_lib no_faults "FileObj ''xyz'' None" 3 "''abc''" None 3 no_faults]
  by (simp add: add_example sample_path)
    (simp add: sample_store_def stored_world_def os_path_exists_def)

text \<open>
  C4. When \<^verbatim>\<open>add\<close> succeeds on a stream, the stream has ended without raising, the
  checksum returned is the hexadecimal MD5 digest of all the bytes of the stream, and the
  count returned is the number of these bytes.
\<close>

theorem add_checksum_and_size:
  assumes "add l fl self image_id (FileObj bs r) image_size s
             = (Inr (uri, bytes_written, checksum_hex, metadata), s')"
  shows "checksum_hex = md5_hexdigest l bs \<and> bytes_written = length bs \<and> r = None"
  using add_Inr [OF assms] by blast

theorem add_checksum_and_size_witness:
  "add sample_lib no_faults sample_store ''1'' (FileObj ''abc'' None) 3 (sample_world ''{\"id\": \"abc\"}'')
     = (Inr (''file:///var/lib/glance/images/1'', 3, py_md5_hexdigest ''abc'',
             JObject [(''id'', JString ''abc'')]),
        stored_world
          \<lparr>LOG := [(DEBUG, ''Wrote %(bytes_written)d bytes to %(filepath)s with checksum %(checksum_hex)s'',
                    [Num 3, Str ''/var/lib/glance/images/1'', Str (py_md5_hexdigest ''abc'')])]\<rparr>)
   \<and> py_md5_hexdigest ''abc'' = md5_hexdigest sample_lib ''abc'' \<and> (3::nat) = length ''abc''"
  using add_checksum_and_size [OF add_example]
  by (simp add: add_example)

text \<open>
  C2. Let the file be new, let it open, and let no write fail, so that what fails is the
  input stream: it delivers the bytes \<open>bs\<close> and then raises \<open>e\<close>. If \<open>e\<close> is an
  \<^verbatim>\<open>IOError\<close> with \<^verbatim>\<open>EACCES\<close>, \<^verbatim>\<open>add\<close> raises \<^verbatim>\<open>StorageWriteDenied\<close> and the partial
  file stays, with nothing logged. If \<open>e\<close> is an \<^verbatim>\<open>IOError\<close> with \<^verbatim>\<open>ENOSPC\<close> or
  \<^verbatim>\<open>EFBIG\<close>, \<^verbatim>\<open>add\<close> raises \<^verbatim>\<open>StorageFull\<close>. For every other \<open>e\<close>, \<^verbatim>\<open>add\<close> raises \<open>e\<close>
  itself. In these two cases the partial file is unlinked: when the unlink succeeds the
  state is the one before the call, in which the path does not exist; when the unlink
  fails the partial file stays, the failure is logged as an error, and the exception
  that \<^verbatim>\<open>add\<close> raises is the same.
\<close>

theorem add_stream_raises:
  assumes "datadir self = Some d" and "p = os_path_join d image_id"
    and "\<not> os_path_exists s p" and "open_fault fl p = None" and "\<forall>i. write_fault fl i = None"
  shows
    "(e = IOError (Some EACCES)
        \<longrightarrow> add l fl self image_id (FileObj bs (Some e)) n s
              = (Inl StorageWriteDenied, s\<lparr>nodes := (nodes s)(p \<mapsto> File bs)\<rparr>))
     \<and> (e = IOError (Some ENOSPC) \<or> e = IOError (Some EFBIG)
        \<longrightarrow> fst (add l fl self image_id (FileObj bs (Some e)) n s) = Inl StorageFull)
     \<and> ((\<forall>en. e = IOError en \<longrightarrow> en \<noteq> Some EACCES \<and> en \<noteq> Some ENOSPC \<and> en \<noteq> Some EFBIG)
        \<longrightarrow> fst (add l fl self image_id (FileObj bs (Some e)) n s) = Inl e)
     \<and> (e \<noteq> IOError (Some EACCES)
        \<longrightarrow> (unlink_fault fl p = None
               \<longrightarrow> snd (add l fl self image_id (FileObj bs (Some e)) n s) = s
                   \<and> \<not> os_path_exists (snd (add l fl self image_id (FileObj bs (Some e)) n s)) p)
            \<and> (\<forall>en. unlink_fault fl p = Some en
               \<longrightarrow> snd (add l fl self image_id (FileObj bs (Some e)) n s)
                     = log_msg ERROR ''Unable to remove partial image data for image %s: %s''
                         [Str image_id, Exn (OSError (Some en))]
                         (s\<lparr>nodes := (nodes s)(p \<mapsto> File bs)\<rparr>)))"
proof -
  let ?s1 = "s\<lparr>nodes := (nodes s)(p \<mapsto> File bs)\<rparr>"
  have tried: "add_try fl p (FileObj bs (Some x)) s = (Inl x, ?s1)" for x
    using add_try_no_fault [OF assms(3,4,5), of bs "Some x"] by simp
  have partial: "nodes ?s1 p = Some (File bs)"
    by simp
  from assms(3) have "nodes s p = None"
    by (simp add: os_path_exists_def)
  then have "(nodes ?s1)(p := None) = nodes s"
    by (intro ext) simp
  then have removed: "?s1\<lparr>nodes := (nodes ?s1)(p := None)\<rparr> = s"
    by simp
  have add_eq: "add l fl self image_id (FileObj bs (Some x)) n s =
      (case x of
         IOError en \<Rightarrow>
           (Inl (errors_get en x),
            if en \<noteq> Some EACCES then delete_partial fl p image_id ?s1 else ?s1)
       | _ \<Rightarrow> (Inl x, delete_partial fl p image_id ?s1))" for x
    using assms(1,2,3) tried [of x] by (simp add: add_def Let_def split: exn.splits)
  have denied: "e = IOError (Some EACCES) \<longrightarrow>
      add l fl self image_id (FileObj bs (Some e)) n s = (Inl StorageWriteDenied, ?s1)"
    by (simp add: add_eq errors_get_def errors_def)
  have full: "e = IOError (Some ENOSPC) \<or> e = IOError (Some EFBIG) \<longrightarrow>
      fst (add l fl self image_id (FileObj bs (Some e)) n s) = Inl StorageFull"
    by (auto simp: add_eq errors_get_def errors_def)
  have other: "(\<forall>en. e = IOError en \<longrightarrow> en \<noteq> Some EACCES \<and> en \<noteq> Some ENOSPC \<and> en \<noteq> Some EFBIG) \<longrightarrow>
      fst (add l fl self image_id (FileObj bs (Some e)) n s) = Inl e"
    by (cases e) (auto simp: add_eq errors_get_def errors_def)
  have state: "e \<noteq> IOError (Some EACCES) \<longrightarrow>
      snd (add l fl self image_id (FileObj bs (Some e)) n s) = delete_partial fl p image_id ?s1"
    by (cases e) (auto simp: add_eq)
  have cleaned: "unlink_fault fl p = None \<longrightarrow> delete_partial fl p image_id ?s1 = s"
    using delete_partial_removed [OF partial, of fl image_id] removed by simp
  have logged: "\<forall>en. unlink_fault fl p = Some en \<longrightarrow>
      delete_partial fl p image_id ?s1
        = log_msg ERROR ''Unable to remove partial image data for image %s: %s''
            [Str image_id, Exn (OSError (Some en))] ?s1"
    using delete_partial_failed [OF partial, of fl _ image_id] by simp
  from denied full other state cleaned logged assms(3) show ?thesis
    by simp
qed

text \<open>
  Three streams that deliver \<^verbatim>\<open>ab\<close> and then fail: with a plain exception (the partial
  file is removed), with a permission error (it stays), and with a full disk while the
  unlink fails too (it stays, and the failure is logged).
\<close>

theorem add_stream_raises_witness:
  "add sample_lib no_faults sample_store ''2''
       (FileObj ''ab'' (Some (OtherException ''connection reset''))) 3 stored_world
     = (Inl (OtherException ''connection reset''), stored_world)
   \<and> add sample_lib no_faults sample_store ''2''
       (FileObj ''ab'' (Some (IOError (Some EACCES)))) 3 stored_world
     = (Inl StorageWriteDenied,
        stored_world\<lparr>nodes := (nodes stored_world)(''/var/lib/glance/images/2'' \<mapsto> File ''ab'')\<rparr>)
   \<and> add sample_lib (no_faults\<lparr>unlink_fault := (\<lambda>p. Some EIO)\<rparr>) sample_store ''2''
       (FileObj ''ab'' (Some (IOError (Some ENOSPC)))) 3 stored_world
     = (Inl StorageFull,
        log_msg ERROR ''Unable to remove partial image data for image %s: %s''
          [Str ''2'', Exn (OSError (Some EIO))]
          (stored_world\<lparr>nodes := (nodes stored_world)(''/var/lib/glance/images/2'' \<mapsto> File ''ab'')\<rparr>))"
proof -
  have p: "''/var/lib/glance/images/2'' = os_path_join ''/var/lib/glance/images'' ''2''"
    by (simp add: os_path_join_def)
  have dd: "datadir sample_store = Some ''/var/lib/glance/images''"
    by (simp add: sample_store_def)
  have new: "\<not> os_path_exists stored_world ''/var/lib/glance/images/2''"
    by (simp add: os_path_exists_def stored_world_def)
  have a: "open_fault no_faults ''/var/lib/glance/images/2'' = None"
    "\<forall>i. write_fault no_faults i = None"
    "unlink_fault no_faults ''/var/lib/glance/images/2'' = None"
    by (simp_all add: no_faults_def)
  have b: "open_fault (no_faults\<lparr>unlink_fault := (\<lambda>p. Some EIO)\<rparr>) ''/var/lib/glance/images/2'' = None"
    "\<forall>i. write_fault (no_faults\<lparr>unlink_fault := (\<lambda>p. Some EIO)\<rparr>) i = None"
    "unlink_fault (no_faults\<lparr>unlink_fault := (\<lambda>p. Some EIO)\<rparr>) ''/var/lib/glance/images/2'' = Some EIO"
    by (simp_all add: no_faults_def)
  from add_stream_raises [OF dd p new a(1,2), of "OtherException ''connection reset''" sample_lib "''ab''" 3]
    add_stream_raises [OF dd p new a(1,2), of "IOError (Some EACCES)" sample_lib "''ab''" 3]
    add_stream_raises [OF dd p new b(1,2), of "IOError (Some ENOSPC)" sample_lib "''ab''" 3]
    a(3) b(3)
  show ?thesis
    by (simp add: prod_eq_iff)
qed

section \<open>Reading an image\<close>

lemma resolve_location_file:
  assumes "path (store_location loc) = Some p" and "nodes s p = Some (File c)"
  shows "resolve_location s loc = Inr (p, length c)"
  using assms by (simp add: resolve_location_def os_path_exists_def os_path_getsize_def)

lemma get_file:
  assumes "path (store_location loc) = Some p" and "nodes s p = Some (File c)"
    and "open_fault fl p = None"
  shows "get fl self loc s =
           (Inr (\<lparr>filepath = p, fp = Some (FileObj c None)\<rparr>, length c),
            log_msg DEBUG ''Found image at %s. Returning in ChunkedFile.'' [Str p] s)"
  using assms
  by (simp add: get_def resolve_location_file ChunkedFile_init_def open_read_def)

lemma get_size_file:
  assumes "path (store_location loc) = Some p" and "nodes s p = Some (File c)"
  shows "get_size self loc s = (Inr (length c), log_msg DEBUG ''Found image at %s.'' [Str p] s)"
  using assms by (simp add: get_size_def resolve_location_file)

text \<open>Iterating over a \<^verbatim>\<open>ChunkedFile\<close> yields the content of the file and closes it.\<close>

lemma ChunkedFile_iter_open:
  "concat (yielded (fst (ChunkedFile_iter \<lparr>filepath = p, fp = Some (FileObj c None)\<rparr>))) = c
   \<and> raised (fst (ChunkedFile_iter \<lparr>filepath = p, fp = Some (FileObj c None)\<rparr>)) = None
   \<and> snd (ChunkedFile_iter \<lparr>filepath = p, fp = Some (FileObj c None)\<rparr>) = \<lparr>filepath = p, fp = None\<rparr>"
  by (simp add: ChunkedFile_iter_def close_def CHUNKSIZE_def read_chunks_yielded_raised)

text \<open>The result of \<^verbatim>\<open>get\<close> is a reader on a file and the size of that file.\<close>

lemma get_Inr:
  assumes "get fl self loc s = (Inr (cf, n), s')"
  shows "\<exists>p c. path (store_location loc) = Some p \<and> nodes s p = Some (File c)
           \<and> cf = \<lparr>filepath = p, fp = Some (FileObj c None)\<rparr> \<and> n = length c"
  using assms
  by (auto simp: get_def resolve_location_def os_path_exists_def os_path_getsize_def
      ChunkedFile_init_def open_read_def Let_def
      split: option.splits sum.splits node.splits if_splits)

text \<open>
  C1. Let \<^verbatim>\<open>add\<close> succeed on the image identifier and a stream of the bytes \<open>bs\<close>, with
  the length of \<open>bs\<close> as the declared size, and take a location whose path is the target
  path of that identifier. Then \<^verbatim>\<open>get\<close> on that location, if the file opens, returns a
  reader and the size: the size is the length of \<open>bs\<close>, and the reader yields chunks
  whose concatenation is \<open>bs\<close>, ends without raising and is closed afterwards. And
  \<^verbatim>\<open>get_size\<close> on that location returns the length of \<open>bs\<close>, before and after the
  \<^verbatim>\<open>get\<close>.
\<close>

theorem add_then_get:
  assumes "add l fl self image_id (FileObj bs r) (length bs) s = (Inr res, s1)"
    and "datadir self = Some d"
    and "path (store_location loc) = Some (os_path_join d image_id)"
    and "open_fault fl' (os_path_join d image_id) = None"
  shows "\<exists>cf s2. get fl' self loc s1 = (Inr (cf, length bs), s2)
           \<and> concat (yielded (fst (ChunkedFile_iter cf))) = bs
           \<and> raised (fst (ChunkedFile_iter cf)) = None
           \<and> fp (snd (ChunkedFile_iter cf)) = None
           \<and> fst (get_size self loc s1) = Inr (length bs)
           \<and> fst (get_size self loc s2) = Inr (length bs)"
proof -
  let ?p = "os_path_join d image_id"
  obtain uri bw ck md where "res = (uri, bw, ck, md)"
    by (cases res)
  with assms(1,2) add_Inr [of l fl self image_id bs r "length bs" s uri bw ck md s1]
  have stored: "nodes s1 ?p = Some (File bs)"
    by auto
  let ?cf = "\<lparr>filepath = ?p, fp = Some (FileObj bs None)\<rparr>"
  let ?s2 = "log_msg DEBUG ''Found image at %s. Returning in ChunkedFile.'' [Str ?p] s1"
  have "get fl' self loc s1 = (Inr (?cf, length bs), ?s2)"
    using get_file [OF assms(3) stored assms(4)] .
  moreover have "concat (yielded (fst (ChunkedFile_iter ?cf))) = bs
      \<and> raised (fst (ChunkedFile_iter ?cf)) = None
      \<and> fp (snd (ChunkedFile_iter ?cf)) = None"
    using ChunkedFile_iter_open [of ?p bs] by simp
  moreover have "fst (get_size self loc s1) = Inr (length bs)"
    using get_size_file [OF assms(3) stored] by simp
  moreover have "nodes ?s2 ?p = Some (File bs)"
    using stored by simp
  then have "fst (get_size self loc ?s2) = Inr (length bs)"
    using get_size_file [OF assms(3)] by simp
  ultimately show ?thesis
    by blast
qed

text \<open>The image \<^verbatim>\<open>abc\<close> of the example is read back.\<close>

theorem add_then_get_witness:
  "add sample_lib no_faults sample_store ''1'' (FileObj ''abc'' None) 3
       (sample_world ''{\"id\": \"abc\"}'')
     = (Inr (''file:///var/lib/glance/images/1'', 3, py_md5_hexdigest ''abc'',
             JObject [(''id'', JString ''abc'')]),
        stored_world
          \<lparr>LOG := [(DEBUG, ''Wrote %(bytes_written)d bytes to %(filepath)s with checksum %(checksum_hex)s'',
                    [Num 3, Str ''/var/lib/glance/images/1'', Str (py_md5_hexdigest ''abc'')])]\<rparr>)
   \<and> datadir sample_store = Some ''/var/lib/glance/images''
   \<and> path (store_location sample_location) = Some (os_path_join ''/var/lib/glance/images'' ''1'')
   \<and> open_fault no_faults (os_path_join ''/var/lib/glance/images'' ''1'') = None
   \<and> (\<exists>cf s2.
         get no_faults sample_store sample_location
           (stored_world
              \<lparr>LOG := [(DEBUG, ''Wrote %(bytes_written)d bytes to %(filepath)s with checksum %(checksum_hex)s'',
                        [Num 3, Str ''/var/lib/glance/images/1'', Str (py_md5_hexdigest ''abc'')])]\<rparr>)
           = (Inr (cf, 3), s2)
         \<and> concat (yielded (fst (ChunkedFile_iter cf))) = ''abc''
         \<and> yielded (fst (ChunkedFile_iter cf)) = [''abc'']
         \<and> fst (get_size sample_store sample_location s2) = Inr 3)"
proof -
  let ?s1 = "stored_world
      \<lparr>LOG := [(DEBUG, ''Wrote %(bytes_written)d bytes to %(filepath)s with checksum %(checksum_hex)s'',
                [Num 3, Str ''/var/lib/glance/images/1'', Str (py_md5_hexdigest ''abc'')])]\<rparr>"
  have len: "length ''abc'' = 3"
    by simp
  have a: "add sample_lib no_faults sample_store ''1'' (FileObj ''abc'' None) (length ''abc'')
       (sample_world ''{\"id\": \"abc\"}'')
     = (Inr (''file:///var/lib/glance/images/1'', 3, py_md5_hexdigest ''abc'',
             JObject [(''id'', JString ''abc'')]), ?s1)"
    unfolding len by (rule add_example)
  have dd: "datadir sample_store = Some ''/var/lib/glance/images''"
    by (simp add: sample_store_def)
  have loc: "path (store_location sample_location) = Some (os_path_join ''/var/lib/glance/images'' ''1'')"
    by (simp add: sample_location_def process_specs_def sample_path)
  have op: "open_fault no_faults (os_path_join ''/var/lib/glance/images'' ''1'') = None"
    by (simp add: no_faults_def)
  from add_then_get [OF a dd loc op] obtain cf s2 where
    g: "get no_faults sample_store sample_location ?s1 = (Inr (cf, length ''abc''), s2)"
      "concat (yielded (fst (ChunkedFile_iter cf))) = ''abc''"
      "fst (get_size sample_store sample_location s2) = Inr (length ''abc'')"
    by blast
  from get_Inr [OF g(1)] have y: "yielded (fst (ChunkedFile_iter cf)) = [''abc'']"
    by (auto simp: ChunkedFile_iter_def CHUNKSIZE_def read_chunks_nonempty read_chunks_empty
        sample_location_def process_specs_def stored_world_def)
  from g(1) g(2) y g(3) have
    "\<exists>cf s2. get no_faults sample_store sample_location ?s1 = (Inr (cf, 3), s2)
       \<and> concat (yielded (fst (ChunkedFile_iter cf))) = ''abc''
       \<and> yielded (fst (ChunkedFile_iter cf)) = [''abc'']
       \<and> fst (get_size sample_store sample_location s2) = Inr 3"
    unfolding len by blast
  with add_example dd loc op show ?thesis
    by (intro conjI)
qed

section \<open>The metadata document and the results of the driver\<close>

text \<open>\<^verbatim>\<open>get\<close> does not look at the store object, and so not at its configuration.\<close>

lemma get_any_store: "get fl self loc s = get fl self' loc s"
  by (simp add: get_def)

text \<open>
  C9, as the spec states it, fails. Two stores are given the same files: one is
  configured with a metadata file, the other with none, so that their metadata documents
  differ. \<^verbatim>\<open>get\<close> returns the same pair for both, the reader and the size: the metadata
  document is no part of what it returns.
\<close>

theorem get_result_has_no_metadata:
  "fst (get no_faults sample_store sample_location stored_world)
     = Inr (\<lparr>filepath = ''/var/lib/glance/images/1'', fp = Some (FileObj ''abc'' None)\<rparr>, 3)
   \<and> fst (get no_faults plain_store sample_location stored_world)
     = Inr (\<lparr>filepath = ''/var/lib/glance/images/1'', fp = Some (FileObj ''abc'' None)\<rparr>, 3)
   \<and> fst (get_metadata sample_lib no_faults sample_store stored_world)
     = Inr (JObject [(''id'', JString ''abc'')])
   \<and> fst (get_metadata sample_lib no_faults plain_store stored_world) = Inr (JObject [])"
  by (simp add: get_def resolve_location_def os_path_exists_def os_path_getsize_def
      ChunkedFile_init_def open_read_def sample_location_def process_specs_def
      stored_world_def no_faults_def get_metadata_def get_metadata_try_def
      sample_store_def plain_store_def sample_conf_def sample_lib_def
      sample_json_load_def sample_check_location_metadata_def)

text \<open>
  C9, amended. A successful \<^verbatim>\<open>get\<close> returns a reader on the file at the path of the
  location and the size of that file, and nothing else; its result is the same for every
  store object, whatever metadata file is configured. The metadata document is part of
  what a successful \<^verbatim>\<open>add\<close> returns: the fourth component is what \<^verbatim>\<open>_get_metadata\<close>
  loads from the files that \<^verbatim>\<open>add\<close> leaves.
\<close>

theorem get_returns_reader_and_size:
  "get fl self loc s = get fl self' loc s
   \<and> (\<forall>cf n s'. get fl self loc s = (Inr (cf, n), s')
        \<longrightarrow> (\<exists>p c. path (store_location loc) = Some p \<and> nodes s p = Some (File c)
               \<and> cf = \<lparr>filepath = p, fp = Some (FileObj c None)\<rparr> \<and> n = length c))
   \<and> (\<forall>uri bw ck md s'. add l fl self image_id (FileObj bs r) image_size s = (Inr (uri, bw, ck, md), s')
        \<longrightarrow> fst (get_metadata l fl self s') = Inr md)"
proof (intro conjI allI impI)
  show "get fl self loc s = get fl self' loc s"
    by (rule get_any_store)
next
  fix cf n s'
  assume "get fl self loc s = (Inr (cf, n), s')"
  then show "\<exists>p c. path (store_location loc) = Some p \<and> nodes s p = Some (File c)
      \<and> cf = \<lparr>filepath = p, fp = Some (FileObj c None)\<rparr> \<and> n = length c"
    by (rule get_Inr)
next
  fix uri bw ck md s'
  assume "add l fl self image_id (FileObj bs r) image_size s = (Inr (uri, bw, ck, md), s')"
  from add_Inr [OF this] show "fst (get_metadata l fl self s') = Inr md"
    by blast
qed

theorem get_returns_reader_and_size_witness:
  "get no_faults sample_store sample_location stored_world
     = get no_faults plain_store sample_location stored_world
   \<and> get no_faults sample_store sample_location stored_world
     = (Inr (\<lparr>filepath = ''/var/lib/glance/images/1'', fp = Some (FileObj ''abc'' None)\<rparr>, 3),
        log_msg DEBUG ''Found image at %s. Returning in ChunkedFile.''
          [Str ''/var/lib/glance/images/1''] stored_world)
   \<and> path (store_location sample_location) = Some ''/var/lib/glance/images/1''
   \<and> nodes stored_world ''/var/lib/glance/images/1'' = Some (File ''abc'')
   \<and> add sample_lib no_faults sample_store ''1'' (FileObj ''abc'' None) 3 (sample_world ''{\"id\": \"abc\"}'')
     = (Inr (''file:///var/lib/glance/images/1'', 3, py_md5_hexdigest ''abc'',
             JObject [(''id'', JString ''abc'')]),
        stored_world
          \<lparr>LOG := [(DEBUG, ''Wrote %(bytes_written)d bytes to %(filepath)s with checksum %(checksum_hex)s'',
                    [Num 3, Str ''/var/lib/glance/images/1'', Str (py_md5_hexdigest ''abc'')])]\<rparr>)
   \<and> fst (get_metadata sample_lib no_faults sample_store
        (stored_world
          \<lparr>LOG := [(DEBUG, ''Wrote %(bytes_written)d bytes to %(filepath)s with checksum %(checksum_hex)s'',
                    [Num 3, Str ''/var/lib/glance/images/1'', Str (py_md5_hexdigest ''abc'')])]\<rparr>))
     = Inr (JObject [(''id'', JString ''abc'')])"
proof -
  have loc: "path (store_location sample_location) = Some ''/var/lib/glance/images/1''"
    by (simp add: sample_location_def process_specs_def)
  have stored: "nodes stored_world ''/var/lib/glance/images/1'' = Some (File ''abc'')"
    by (simp add: stored_world_def)
  have op: "open_fault no_faults ''/var/lib/glance/images/1'' = None"
    by (simp add: no_faults_def)
  have g: "get no_faults sample_store sample_location stored_world
     = (Inr (\<lparr>filepath = ''/var/lib/glance/images/1'', fp = Some (FileObj ''abc'' None)\<rparr>, 3),
        log_msg DEBUG ''Found image at %s. Returning in ChunkedFile.''
          [Str ''/var/lib/glance/images/1''] stored_world)"
    using get_file [OF loc stored op, of sample_store] by simp
  from get_returns_reader_and_size [of no_faults sample_store sample_location stored_world plain_store
      sample_lib "''1''" "''abc''" None 3]
  have "get no_faults sample_store sample_location stored_world
      = get no_faults plain_store sample_location stored_world"
    by blast
  moreover
  from get_returns_reader_and_size [of no_faults sample_store sample_location
      "sample_world ''{\"id\": \"abc\"}''" plain_store sample_lib "''1''" "''abc''" None 3] add_example
  have "fst (get_metadata sample_lib no_faults sample_store
        (stored_world
          \<lparr>LOG := [(DEBUG, ''Wrote %(bytes_written)d bytes to %(filepath)s with checksum %(checksum_hex)s'',
                    [Num 3, Str ''/var/lib/glance/images/1'', Str (py_md5_hexdigest ''abc'')])]\<rparr>))
     = Inr (JObject [(''id'', JString ''abc'')])"
    by blast
  ultimately show ?thesis
    using g loc stored add_example by (intro conjI)
qed

end
